theory Spec2Isabelle
  imports Complex_Main "HOL-Library.Word" "HOL-Library.While_Combinator"
begin

section \<open>JavaScript values used by the simulator\<close>

text \<open>
  The simulator is written in TypeScript, so every number it handles is a JavaScript
  number. A number is modelled as an exact rational or one of the three non-finite
  values; rounding to 64-bit floating point and the sign of zero are not modelled.
\<close>

datatype jsnum = Fin rat | NaN | PosInf | NegInf

datatype 'a nullable = Null | Val 'a

fun jsNeg :: "jsnum \<Rightarrow> jsnum" where
  "jsNeg (Fin r) = Fin (- r)"
| "jsNeg NaN = NaN"
| "jsNeg PosInf = NegInf"
| "jsNeg NegInf = PosInf"

fun jsAdd :: "jsnum \<Rightarrow> jsnum \<Rightarrow> jsnum" where
  "jsAdd NaN _ = NaN"
| "jsAdd _ NaN = NaN"
| "jsAdd (Fin a) (Fin b) = Fin (a + b)"
| "jsAdd PosInf NegInf = NaN"
| "jsAdd NegInf PosInf = NaN"
| "jsAdd PosInf _ = PosInf"
| "jsAdd NegInf _ = NegInf"
| "jsAdd _ PosInf = PosInf"
| "jsAdd _ NegInf = NegInf"

definition jsSub :: "jsnum \<Rightarrow> jsnum \<Rightarrow> jsnum" where
  "jsSub a b = jsAdd a (jsNeg b)"

fun jsSign :: "jsnum \<Rightarrow> int" where
  "jsSign (Fin r) = (if r < 0 then - 1 else if r = 0 then 0 else 1)"
| "jsSign NaN = 0"
| "jsSign PosInf = 1"
| "jsSign NegInf = - 1"

definition infOfSign :: "int \<Rightarrow> jsnum" where
  "infOfSign s = (if s = 0 then NaN else if 0 < s then PosInf else NegInf)"

fun jsMul :: "jsnum \<Rightarrow> jsnum \<Rightarrow> jsnum" where
  "jsMul NaN _ = NaN"
| "jsMul _ NaN = NaN"
| "jsMul (Fin a) (Fin b) = Fin (a * b)"
| "jsMul a b = infOfSign (jsSign a * jsSign b)"

text \<open>Division \<open>a / b\<close>; a zero divisor is the positive zero.\<close>

fun jsDiv :: "jsnum \<Rightarrow> jsnum \<Rightarrow> jsnum" where
  "jsDiv NaN _ = NaN"
| "jsDiv _ NaN = NaN"
| "jsDiv (Fin a) (Fin b) = (if b = 0 then infOfSign (jsSign (Fin a)) else Fin (a / b))"
| "jsDiv (Fin a) _ = Fin 0"
| "jsDiv a (Fin b) = infOfSign (jsSign a * (if b < 0 then - 1 else 1))"
| "jsDiv _ _ = NaN"

text \<open>\<open>Math.trunc\<close> on a rational: the integer part, rounding toward zero.\<close>

definition rtrunc :: "rat \<Rightarrow> int" where
  "rtrunc q = (if 0 \<le> q then \<lfloor>q\<rfloor> else \<lceil>q\<rceil>)"

fun mathTrunc :: "jsnum \<Rightarrow> jsnum" where
  "mathTrunc (Fin r) = Fin (of_int (rtrunc r))"
| "mathTrunc n = n"

text \<open>The remainder \<open>a % b\<close>, which takes the sign of the dividend.\<close>

fun jsRem :: "jsnum \<Rightarrow> jsnum \<Rightarrow> jsnum" where
  "jsRem NaN _ = NaN"
| "jsRem _ NaN = NaN"
| "jsRem (Fin a) (Fin b) = (if b = 0 then NaN else Fin (a - b * of_int (rtrunc (a / b))))"
| "jsRem (Fin a) _ = Fin a"
| "jsRem _ _ = NaN"

text \<open>\<open>Math.round\<close> rounds half-way cases toward plus infinity.\<close>

fun mathRound :: "jsnum \<Rightarrow> jsnum" where
  "mathRound (Fin r) = Fin (of_int \<lfloor>r + 1 / 2\<rfloor>)"
| "mathRound n = n"

fun jsLess :: "jsnum \<Rightarrow> jsnum \<Rightarrow> bool" where
  "jsLess NaN _ = False"
| "jsLess _ NaN = False"
| "jsLess (Fin a) (Fin b) = (a < b)"
| "jsLess NegInf NegInf = False"
| "jsLess NegInf _ = True"
| "jsLess _ NegInf = False"
| "jsLess PosInf _ = False"
| "jsLess _ PosInf = True"

definition jsNumEq :: "jsnum \<Rightarrow> jsnum \<Rightarrow> bool" where
  "jsNumEq a b = (a \<noteq> NaN \<and> a = b)"

definition jsLessEq :: "jsnum \<Rightarrow> jsnum \<Rightarrow> bool" where
  "jsLessEq a b = (jsLess a b \<or> jsNumEq a b)"

definition mathMax :: "jsnum \<Rightarrow> jsnum \<Rightarrow> jsnum" where
  "mathMax a b = (if a = NaN \<or> b = NaN then NaN else if jsLess a b then b else a)"

definition isFinite :: "jsnum \<Rightarrow> bool" where
  "isFinite n = (case n of Fin _ \<Rightarrow> True | _ \<Rightarrow> False)"

text \<open>
  The payload of a primitive value has the TypeScript type
  \<open>number | boolean | string | null\<close>. The conversions between strings and numbers that
  JavaScript applies implicitly are functions of the host; they are parameters of the model.
\<close>

datatype payload = PNum jsnum | PBool bool | PStr string | PNull

record js_host =
  numToString :: "jsnum \<Rightarrow> string"
  strToNumber :: "string \<Rightarrow> jsnum"

fun toNumber :: "'a js_host_scheme \<Rightarrow> payload \<Rightarrow> jsnum" where
  "toNumber h (PNum n) = n"
| "toNumber h (PBool b) = (if b then Fin 1 else Fin 0)"
| "toNumber h (PStr s) = strToNumber h s"
| "toNumber h PNull = Fin 0"

fun toStr :: "'a js_host_scheme \<Rightarrow> payload \<Rightarrow> string" where
  "toStr h (PNum n) = numToString h n"
| "toStr h (PBool b) = (if b then ''true'' else ''false'')"
| "toStr h (PStr s) = s"
| "toStr h PNull = ''null''"

fun truthy :: "payload \<Rightarrow> bool" where
  "truthy (PNum (Fin r)) = (r \<noteq> 0)"
| "truthy (PNum NaN) = False"
| "truthy (PNum _) = True"
| "truthy (PBool b) = b"
| "truthy (PStr s) = (s \<noteq> [])"
| "truthy PNull = False"

text \<open>Strict equality \<open>a === b\<close> on payloads.\<close>

fun strictEq :: "payload \<Rightarrow> payload \<Rightarrow> bool" where
  "strictEq (PNum a) (PNum b) = jsNumEq a b"
| "strictEq (PBool a) (PBool b) = (a = b)"
| "strictEq (PStr a) (PStr b) = (a = b)"
| "strictEq PNull PNull = True"
| "strictEq _ _ = False"

fun isStr :: "payload \<Rightarrow> bool" where
  "isStr (PStr _) = True"
| "isStr _ = False"

text \<open>The operator \<open>+\<close>: concatenation as soon as one side is a string.\<close>

definition jsPlus :: "'a js_host_scheme \<Rightarrow> payload \<Rightarrow> payload \<Rightarrow> payload" where
  "jsPlus h a b =
     (if isStr a \<or> isStr b then PStr (toStr h a @ toStr h b)
      else PNum (jsAdd (toNumber h a) (toNumber h b)))"

text \<open>Strings compare by code units, everything else compares as numbers.\<close>

fun strLess :: "string \<Rightarrow> string \<Rightarrow> bool" where
  "strLess [] [] = False"
| "strLess [] (y # ys) = True"
| "strLess (x # xs) [] = False"
| "strLess (x # xs) (y # ys) =
     (if (of_char x :: nat) < of_char y then True
      else if (of_char y :: nat) < of_char x then False
      else strLess xs ys)"

fun relLess :: "'a js_host_scheme \<Rightarrow> payload \<Rightarrow> payload \<Rightarrow> bool" where
  "relLess h (PStr a) (PStr b) = strLess a b"
| "relLess h a b = jsLess (toNumber h a) (toNumber h b)"

fun relLessEq :: "'a js_host_scheme \<Rightarrow> payload \<Rightarrow> payload \<Rightarrow> bool" where
  "relLessEq h (PStr a) (PStr b) = (\<not> strLess b a)"
| "relLessEq h a b = jsLessEq (toNumber h a) (toNumber h b)"

text \<open>Decimal text of a natural number, as in a template literal.\<close>

fun digitsOf :: "nat \<Rightarrow> nat \<Rightarrow> string" where
  "digitsOf 0 n = []"
| "digitsOf (Suc fuel) n =
     (if n < 10 then [char_of (48 + n)]
      else digitsOf fuel (n div 10) @ [char_of (48 + n mod 10)])"

definition natToString :: "nat \<Rightarrow> string" where
  "natToString n = digitsOf (Suc n) n"

section \<open>The state of the virtual machine (types/JVMState)\<close>

datatype PrimitiveType =
  TInt | TLong | TFloat | TDouble | TBoolean | TChar | TByte | TShort | TString | TVoid

datatype Value =
    Primitive PrimitiveType payload
  | Reference "string option"
  | ArrayValue string string
  | LambdaValue string "(string \<times> Value) list" string

record LocalVariable =
  lv_name :: string
  lv_type :: string
  lv_value :: Value
  lv_slot :: nat

record StackFrame =
  f_id :: string
  f_className :: string
  f_methodName :: string
  f_methodSignature :: string
  f_localVariables :: "LocalVariable list"
  f_operandStack :: "Value list"
  f_pc :: int
  f_lineNumber :: int
  f_isNative :: bool
  f_capturedVariables :: "LocalVariable list option"

record HeapField =
  hf_name :: string
  hf_type :: string
  hf_value :: Value
  hf_isStatic :: bool

datatype HeapKind = KObject | KArray | KLambda | KString

record HeapObject =
  h_id :: string
  h_type :: HeapKind
  h_className :: string
  h_fields :: "HeapField list"
  h_arrayElements :: "Value list option"
  h_arrayLength :: "nat option"
  h_stringValue :: "string option"
  h_isReachable :: bool
  h_gcRoot :: bool
  h_createdAtStep :: nat
  h_references :: "string list"

record FieldInfo =
  fi_name :: string
  fi_type :: string
  fi_accessModifiers :: "string list"
  fi_isStatic :: bool
  fi_initialValue :: "Value option"

record ParameterInfo =
  pi_name :: string
  pi_type :: string

text \<open>
  \<open>lineNumberTable\<close> is always created as an empty \<open>Map\<close>; the JSON round trip of
  \<open>cloneState\<close> turns it into an empty plain object.
\<close>

datatype LineNumberTable = EmptyMap | EmptyObject

record MethodInfo =
  mi_name :: string
  mi_returnType :: string
  mi_parameters :: "ParameterInfo list"
  mi_accessModifiers :: "string list"
  mi_isStatic :: bool
  mi_isAbstract :: bool
  mi_isDefault :: bool
  mi_isNative :: bool
  mi_bytecodeStartIndex :: nat
  mi_bytecodeEndIndex :: nat
  mi_lineNumberTable :: LineNumberTable

record ClassInfo =
  ci_name :: string
  ci_superClass :: "string option"
  ci_interfaces :: "string list"
  ci_fields :: "FieldInfo list"
  ci_methods :: "MethodInfo list"
  ci_isInterface :: bool
  ci_isAbstract :: bool
  ci_accessModifiers :: "string list"
  ci_sourceFile :: "string option"
  ci_loadedAtStep :: nat

record ConstantPoolEntry =
  cp_index :: nat
  cp_type :: string
  cp_value :: payload

text \<open>
  A JavaScript object used as a dictionary (\<open>Record<string, T>\<close>) is an association
  list in insertion order. Keys that name members inherited from \<open>Object.prototype\<close> are
  not treated specially.
\<close>

record MethodArea =
  ma_loadedClasses :: "(string \<times> ClassInfo) list"
  ma_staticFields :: "(string \<times> (string \<times> Value) list) list"
  ma_constantPool :: "ConstantPoolEntry list"

record ProgramCounter =
  pc_currentInstruction :: int
  pc_currentLine :: int
  pc_currentMethod :: string
  pc_currentClass :: string

datatype ExecutionStatus = Idle | Running | Paused | Completed | Error

datatype ThreadStatus =
  NEW | RUNNABLE | RUNNING | BLOCKED | WAITING | TIMED_WAITING | TERMINATED

record ThreadState =
  t_id :: string
  t_name :: string
  t_stack :: "StackFrame list"
  t_status :: ThreadStatus
  t_sleepUntilStep :: "jsnum nullable option"
  t_waitingOnMonitor :: "string option"
  t_holdingMonitors :: "string list"
  t_objectId :: "string option"
  t_priority :: int
  t_isDaemon :: bool
  t_stepCount :: nat
  t_interrupted :: bool

record JVMState =
  stack :: "StackFrame list"
  heap :: "HeapObject list"
  methodArea :: MethodArea
  pc :: ProgramCounter
  nativeStack :: "StackFrame list"
  status :: ExecutionStatus
  stepNumber :: nat
  "output" :: "string list"
  error :: "string option"
  threads :: "ThreadState list"
  activeThread :: nat
  monitors :: "(string \<times> string nullable) list"

definition createPrimitiveValue :: "PrimitiveType \<Rightarrow> payload \<Rightarrow> Value" where
  "createPrimitiveValue t v = Primitive t v"

definition createReferenceValue :: "string option \<Rightarrow> Value" where
  "createReferenceValue objectId = Reference objectId"

definition createNullValue :: Value where
  "createNullValue = Reference None"

text \<open>A string is truthy when it is not empty; \<open>null\<close> and \<open>undefined\<close> are falsy.\<close>

definition truthyStr :: "string option \<Rightarrow> bool" where
  "truthyStr s = (case s of None \<Rightarrow> False | Some x \<Rightarrow> x \<noteq> [])"

fun valueToString :: "'a js_host_scheme \<Rightarrow> Value \<Rightarrow> string" where
  "valueToString h (Primitive t p) =
     (if p = PNull then ''null''
      else if t = TString then [CHR 0x22] @ toStr h p @ [CHR 0x22]
      else if t = TChar then [CHR 0x27] @ toStr h p @ [CHR 0x27]
      else if t = TBoolean then (if truthy p then ''true'' else ''false'')
      else toStr h p)"
| "valueToString h (Reference objectId) =
     (if truthyStr objectId then ''@'' @ the objectId else ''null'')"
| "valueToString h (ArrayValue objectId elementType) = elementType @ ''[]@'' @ objectId"
| "valueToString h (LambdaValue objectId cv tm) = ''Lambda@'' @ objectId"

definition createInitialJVMState :: JVMState where
  "createInitialJVMState =
     \<lparr> stack = [], heap = [],
       methodArea = \<lparr> ma_loadedClasses = [], ma_staticFields = [], ma_constantPool = [] \<rparr>,
       pc = \<lparr> pc_currentInstruction = 0, pc_currentLine = 0,
              pc_currentMethod = [], pc_currentClass = [] \<rparr>,
       nativeStack = [], status = Idle, stepNumber = 0, output = [], error = None,
       threads = [], activeThread = 0, monitors = [] \<rparr>"

section \<open>Bytecode (types/Bytecode)\<close>

text \<open>
  \<open>OpCode\<close> is a string enum: every member is the string of its own name, and
  \<open>executeInstruction\<close> switches on that string.
\<close>

type_synonym OpCode = string

datatype InstructionOperand =
    OInt int
  | OFloat rat
  | OString string
  | OBoolean bool
  | OClass string
  | OMethod string string
  | OField string string
  | OLocal nat string
  | OLabel int
  | OType string

record Instruction =
  opcode :: OpCode
  operands :: "InstructionOperand list"
  sourceLine :: int
  sourceColumn :: "int option"
  comment :: "string option"

record LocalVariableEntry =
  lve_index :: nat
  lve_name :: string
  lve_type :: string
  lve_startPc :: nat
  lve_endPc :: nat

record CompiledMethod =
  cm_className :: string
  cm_methodName :: string
  cm_signature :: string
  cm_instructions :: "Instruction list"
  cm_localVariableTable :: "LocalVariableEntry list"
  cm_maxStack :: nat
  cm_maxLocals :: nat

record CompiledField =
  cf_name :: string
  cf_type :: string
  cf_isStatic :: bool
  cf_initialValue :: "InstructionOperand option"

record CompiledClass =
  cc_name :: string
  cc_superClass :: string
  cc_interfaces :: "string list"
  cc_fields :: "CompiledField list"
  cc_methods :: "CompiledMethod list"
  cc_isInterface :: bool
  cc_sourceFile :: string

record CompiledProgram =
  classes :: "CompiledClass list"
  mainClass :: string
  mainMethod :: string
  allInstructions :: "Instruction list"
  methodOffsets :: "(string \<times> nat) list"

section \<open>Snapshots and history (runtime/JVMSimulator)\<close>

text \<open>
  \<open>cloneState\<close> is \<open>JSON.parse(JSON.stringify(state))\<close>. The round trip builds a fresh
  tree, keeps strings, booleans, finite numbers, arrays and objects, drops properties whose
  value is \<open>undefined\<close> (they read as \<open>undefined\<close> again), writes \<open>null\<close> for a number that
  is not finite, and writes a \<open>Map\<close> as an empty object.
\<close>

fun clonePayload :: "payload \<Rightarrow> payload" where
  "clonePayload (PNum n) = (if isFinite n then PNum n else PNull)"
| "clonePayload p = p"

primrec cloneValue :: "Value \<Rightarrow> Value" where
  "cloneValue (Primitive t p) = Primitive t (clonePayload p)"
| "cloneValue (Reference objectId) = Reference objectId"
| "cloneValue (ArrayValue objectId elementType) = ArrayValue objectId elementType"
| "cloneValue (LambdaValue objectId cv tm) =
     LambdaValue objectId (map (map_prod id cloneValue) cv) tm"

definition cloneLocal :: "LocalVariable \<Rightarrow> LocalVariable" where
  "cloneLocal v = v\<lparr> lv_value := cloneValue (lv_value v) \<rparr>"

definition cloneFrame :: "StackFrame \<Rightarrow> StackFrame" where
  "cloneFrame f =
     f\<lparr> f_localVariables := map cloneLocal (f_localVariables f),
        f_operandStack := map cloneValue (f_operandStack f),
        f_capturedVariables := map_option (map cloneLocal) (f_capturedVariables f) \<rparr>"

definition cloneHeapField :: "HeapField \<Rightarrow> HeapField" where
  "cloneHeapField x = x\<lparr> hf_value := cloneValue (hf_value x) \<rparr>"

definition cloneHeapObject :: "HeapObject \<Rightarrow> HeapObject" where
  "cloneHeapObject ob =
     ob\<lparr> h_fields := map cloneHeapField (h_fields ob),
         h_arrayElements := map_option (map cloneValue) (h_arrayElements ob) \<rparr>"

definition cloneFieldInfo :: "FieldInfo \<Rightarrow> FieldInfo" where
  "cloneFieldInfo x = x\<lparr> fi_initialValue := map_option cloneValue (fi_initialValue x) \<rparr>"

definition cloneMethodInfo :: "MethodInfo \<Rightarrow> MethodInfo" where
  "cloneMethodInfo m = m\<lparr> mi_lineNumberTable := EmptyObject \<rparr>"

definition cloneClassInfo :: "ClassInfo \<Rightarrow> ClassInfo" where
  "cloneClassInfo c =
     c\<lparr> ci_fields := map cloneFieldInfo (ci_fields c),
        ci_methods := map cloneMethodInfo (ci_methods c) \<rparr>"

definition cloneConstant :: "ConstantPoolEntry \<Rightarrow> ConstantPoolEntry" where
  "cloneConstant e = e\<lparr> cp_value := clonePayload (cp_value e) \<rparr>"

definition cloneMethodArea :: "MethodArea \<Rightarrow> MethodArea" where
  "cloneMethodArea m =
     \<lparr> ma_loadedClasses = map (map_prod id cloneClassInfo) (ma_loadedClasses m),
       ma_staticFields = map (map_prod id (map (map_prod id cloneValue))) (ma_staticFields m),
       ma_constantPool = map cloneConstant (ma_constantPool m) \<rparr>"

fun cloneSleep :: "jsnum nullable \<Rightarrow> jsnum nullable" where
  "cloneSleep (Val n) = (if isFinite n then Val n else Null)"
| "cloneSleep Null = Null"

definition cloneThread :: "ThreadState \<Rightarrow> ThreadState" where
  "cloneThread t =
     t\<lparr> t_stack := map cloneFrame (t_stack t),
        t_sleepUntilStep := map_option cloneSleep (t_sleepUntilStep t) \<rparr>"

definition cloneJVMState :: "JVMState \<Rightarrow> JVMState" where
  "cloneJVMState s =
     s\<lparr> stack := map cloneFrame (stack s),
        heap := map cloneHeapObject (heap s),
        methodArea := cloneMethodArea (methodArea s),
        nativeStack := map cloneFrame (nativeStack s),
        threads := map cloneThread (threads s) \<rparr>"

record ExecutionResult =
  r_state :: JVMState
  r_instruction :: "Instruction option"
  r_description :: string

record JVMSimulator =
  program :: CompiledProgram
  state :: JVMState
  history :: "JVMState list"
  maxHistory :: nat
  nextObjectId :: nat

definition cloneState :: "JVMSimulator \<Rightarrow> JVMState" where
  "cloneState sim = cloneJVMState (state sim)"

definition getState :: "JVMSimulator \<Rightarrow> JVMState" where
  "getState sim = cloneState sim"

definition canStepBack :: "JVMSimulator \<Rightarrow> bool" where
  "canStepBack sim = (length (history sim) > 0)"

text \<open>The history is an array: \<open>push\<close> appends, \<open>shift\<close> drops the oldest entry.\<close>

definition saveHistory :: "JVMSimulator \<Rightarrow> JVMSimulator" where
  "saveHistory sim =
     (let h = (if length (history sim) \<ge> maxHistory sim then tl (history sim)
               else history sim)
      in sim\<lparr> history := h @ [cloneState sim] \<rparr>)"

definition stepBack :: "JVMSimulator \<Rightarrow> ExecutionResult \<times> JVMSimulator" where
  "stepBack sim =
     (if length (history sim) = 0
      then (\<lparr> r_state = cloneState sim, r_instruction = None,
              r_description = ''No previous state'' \<rparr>, sim)
      else (let sim' = sim\<lparr> state := last (history sim), history := butlast (history sim) \<rparr>
            in (\<lparr> r_state = cloneState sim', r_instruction = None,
                   r_description = ''Stepped back'' \<rparr>, sim')))"

section \<open>Execution (runtime/JVMSimulator)\<close>

text \<open>
  What \<open>step\<close> cannot return normally is a fault: a JavaScript exception, an
  instruction whose operands do not have the shape its opcode casts them to, a use of
  JavaScript arrays that this development does not cover (array indices that are not
  element indices), or a loop over the class table that does not end.
\<close>

datatype fault = JsThrow string | IllFormed | Unmodelled | Diverges

definition bindF :: "fault + 'a \<Rightarrow> ('a \<Rightarrow> fault + 'b) \<Rightarrow> fault + 'b" where
  "bindF m f = (case m of Inl e \<Rightarrow> Inl e | Inr x \<Rightarrow> f x)"

text \<open>
  The host supplies what the simulator takes from its environment during one call of
  \<open>step\<close>: the value of \<open>Math.random()\<close>, the identifier that \<open>generateFrameId\<close> builds
  from the clock and a random number, the text of the description that
  \<open>executeInstruction\<close> returns, and the standard-library families other than
  \<open>Thread\<close> and \<open>String.hashCode\<close>. Such a family reads the call, the step number, the
  running frame, the heap and the object counter; it may change the frame, the heap and the
  counter, and says whether it handled the call.
\<close>

record StdCall =
  sc_methodName :: string
  sc_args :: "Value list"
  sc_isStatic :: bool
  sc_className :: string
  sc_objRef :: "Value option"

type_synonym StdState = "StackFrame \<times> HeapObject list \<times> nat"

record host = js_host +
  mathRandom :: rat
  frameId :: string
  describe :: "Instruction \<Rightarrow> JVMState \<Rightarrow> string"
  stdlibFamily :: "string \<Rightarrow> StdCall \<Rightarrow> nat \<Rightarrow> StdState \<Rightarrow> fault + (StdState \<times> bool)"

subsection \<open>Arrays, dictionaries and frames\<close>

text \<open>\<open>xs.find(p)\<close> returns the first match; the code then mutates that object in place.\<close>

fun updFirst :: "('a \<Rightarrow> bool) \<Rightarrow> ('a \<Rightarrow> 'a) \<Rightarrow> 'a list \<Rightarrow> 'a list" where
  "updFirst P f [] = []"
| "updFirst P f (x # xs) = (if P x then f x # xs else x # updFirst P f xs)"

text \<open>\<open>d[k] = v\<close> on a dictionary: an existing key keeps its place, a new key comes last.\<close>

fun assocSet :: "'k \<Rightarrow> 'v \<Rightarrow> ('k \<times> 'v) list \<Rightarrow> ('k \<times> 'v) list" where
  "assocSet k v [] = [(k, v)]"
| "assocSet k v (kv # xs) = (if fst kv = k then (k, v) # xs else kv # assocSet k v xs)"

definition popValue :: "Value list \<Rightarrow> Value option \<times> Value list" where
  "popValue stk = (if stk = [] then (None, []) else (Some (last stk), butlast stk))"

definition pushV :: "Value \<Rightarrow> StackFrame \<Rightarrow> StackFrame" where
  "pushV v f = f\<lparr> f_operandStack := f_operandStack f @ [v] \<rparr>"

definition popF :: "StackFrame \<Rightarrow> Value option \<times> StackFrame" where
  "popF f = (fst (popValue (f_operandStack f)),
             f\<lparr> f_operandStack := snd (popValue (f_operandStack f)) \<rparr>)"

definition incPc :: "StackFrame \<Rightarrow> StackFrame" where
  "incPc f = f\<lparr> f_pc := f_pc f + 1 \<rparr>"

definition orNull :: "Value option \<Rightarrow> Value" where
  "orNull v = (case v of None \<Rightarrow> createNullValue | Some x \<Rightarrow> x)"

definition updThread :: "nat \<Rightarrow> (ThreadState \<Rightarrow> ThreadState) \<Rightarrow> JVMState \<Rightarrow> JVMState" where
  "updThread ti g st = st\<lparr> threads := (threads st)[ti := g (threads st ! ti)] \<rparr>"

text \<open>
  \<open>frame\<close> is the top frame of the running thread, an object that the instruction
  mutates in place; \<open>ti\<close> is the index of that thread.
\<close>

definition getFrame :: "nat \<Rightarrow> JVMState \<Rightarrow> StackFrame" where
  "getFrame ti st = last (t_stack (threads st ! ti))"

definition setTop :: "StackFrame \<Rightarrow> ThreadState \<Rightarrow> ThreadState" where
  "setTop f t = t\<lparr> t_stack := butlast (t_stack t) @ [f] \<rparr>"

definition setFrame :: "nat \<Rightarrow> StackFrame \<Rightarrow> JVMState \<Rightarrow> JVMState" where
  "setFrame ti f st = updThread ti (setTop f) st"

definition heapFind :: "string option \<Rightarrow> HeapObject list \<Rightarrow> HeapObject option" where
  "heapFind objectId hp =
     (case objectId of None \<Rightarrow> None | Some i \<Rightarrow> find (\<lambda>ob. h_id ob = i) hp)"

definition heapUpd :: "string \<Rightarrow> (HeapObject \<Rightarrow> HeapObject) \<Rightarrow> HeapObject list \<Rightarrow> HeapObject list" where
  "heapUpd i g hp = updFirst (\<lambda>ob. h_id ob = i) g hp"

subsection \<open>Thread scheduling helpers\<close>

definition activeThreadState :: "JVMState \<Rightarrow> ThreadState option" where
  "activeThreadState st =
     (if activeThread st < length (threads st) then Some (threads st ! activeThread st)
      else None)"

definition runnable :: "ThreadState \<Rightarrow> bool" where
  "runnable t = (t_status t = RUNNABLE \<or> t_status t = RUNNING)"

definition rotateThread :: "JVMState \<Rightarrow> JVMState" where
  "rotateThread st =
     (let n = length (threads st) in
      if n \<le> 1 then st
      else (case find (\<lambda>idx. runnable (threads st ! idx))
                       (map (\<lambda>i. (activeThread st + i) mod n) [1..<n]) of
              None \<Rightarrow> st
            | Some idx \<Rightarrow> st\<lparr> activeThread := idx \<rparr>))"

text \<open>\<open>stepNumber >= sleepUntilStep\<close>; a \<open>null\<close> left by a snapshot counts as 0.\<close>

fun sleepExpired :: "nat \<Rightarrow> jsnum nullable \<Rightarrow> bool" where
  "sleepExpired sn (Val n) = jsLessEq n (Fin (of_nat sn))"
| "sleepExpired sn Null = True"

definition tickOne :: "nat \<Rightarrow> JVMState \<Rightarrow> JVMState" where
  "tickOne i st =
     (let t = threads st ! i;
          t1 = (if t_status t = TIMED_WAITING \<and> t_sleepUntilStep t \<noteq> None
                   \<and> sleepExpired (stepNumber st) (the (t_sleepUntilStep t))
                then t\<lparr> t_status := RUNNABLE, t_sleepUntilStep := None \<rparr> else t);
          st1 = st\<lparr> threads := (threads st)[i := t1] \<rparr>;
          t2 = (if t_status t1 = WAITING \<and> truthyStr (t_waitingOnMonitor t1)
                then (case find (\<lambda>th. Some (t_id th) = t_waitingOnMonitor t1) (threads st1) of
                        None \<Rightarrow> t1\<lparr> t_status := RUNNABLE, t_waitingOnMonitor := None \<rparr>
                      | Some target \<Rightarrow>
                          if t_status target = TERMINATED
                          then t1\<lparr> t_status := RUNNABLE, t_waitingOnMonitor := None \<rparr>
                          else t1)
                else t1)
      in st1\<lparr> threads := (threads st1)[i := t2] \<rparr>)"

definition tickThreads :: "JVMState \<Rightarrow> JVMState" where
  "tickThreads st = fold tickOne [0..<length (threads st)] st"

subsection \<open>Monitors\<close>

definition acquireMonitor :: "string \<Rightarrow> string \<Rightarrow> JVMState \<Rightarrow> bool \<times> JVMState" where
  "acquireMonitor objectId threadId st =
     (let holder = map_of (monitors st) objectId in
      if holder = None \<or> holder = Some Null \<or> holder = Some (Val threadId)
      then (True,
            st\<lparr> monitors := assocSet objectId (Val threadId) (monitors st),
                threads := updFirst (\<lambda>t. t_id t = threadId)
                  (\<lambda>t. if objectId \<in> set (t_holdingMonitors t) then t
                       else t\<lparr> t_holdingMonitors := t_holdingMonitors t @ [objectId] \<rparr>)
                  (threads st) \<rparr>)
      else (False, st))"

definition releaseMonitor :: "string \<Rightarrow> string \<Rightarrow> JVMState \<Rightarrow> JVMState" where
  "releaseMonitor objectId threadId st =
     (if map_of (monitors st) objectId = Some (Val threadId)
      then (let ts1 = updFirst (\<lambda>t. t_id t = threadId)
                        (\<lambda>t. t\<lparr> t_holdingMonitors :=
                                  filter (\<lambda>m. m \<noteq> objectId) (t_holdingMonitors t) \<rparr>)
                        (threads st);
                ts2 = updFirst (\<lambda>t. t_status t = BLOCKED \<and> t_waitingOnMonitor t = Some objectId)
                        (\<lambda>t. t\<lparr> t_status := RUNNABLE, t_waitingOnMonitor := None \<rparr>) ts1
            in st\<lparr> monitors := assocSet objectId Null (monitors st), threads := ts2 \<rparr>)
      else st)"

text \<open>
  The three places where \<open>step\<close> ends a thread: mark it TERMINATED, release every
  monitor of its list (the loop runs over the array the thread had when the loop began),
  then empty the list.
\<close>

definition terminateThread :: "nat \<Rightarrow> JVMState \<Rightarrow> JVMState" where
  "terminateThread ti st =
     (let st1 = updThread ti (\<lambda>t. t\<lparr> t_status := TERMINATED \<rparr>) st;
          th = threads st1 ! ti;
          st2 = fold (\<lambda>monId s. releaseMonitor monId (t_id th) s) (t_holdingMonitors th) st1
      in updThread ti (\<lambda>t. t\<lparr> t_holdingMonitors := [] \<rparr>) st2)"

subsection \<open>Allocation\<close>

definition operandToValue :: "InstructionOperand \<Rightarrow> Value" where
  "operandToValue operand =
     (case operand of
        OInt v \<Rightarrow> createPrimitiveValue TInt (PNum (Fin (of_int v)))
      | OFloat v \<Rightarrow> createPrimitiveValue TDouble (PNum (Fin v))
      | OString v \<Rightarrow> createPrimitiveValue TString (PStr v)
      | OBoolean v \<Rightarrow> createPrimitiveValue TBoolean (PBool v)
      | _ \<Rightarrow> createNullValue)"

definition getDefaultValue :: "string \<Rightarrow> Value" where
  "getDefaultValue ty =
     (if ty = ''int'' \<or> ty = ''long'' \<or> ty = ''short'' \<or> ty = ''byte''
        then createPrimitiveValue TInt (PNum (Fin 0))
      else if ty = ''float'' \<or> ty = ''double'' then createPrimitiveValue TDouble (PNum (Fin 0))
      else if ty = ''boolean'' then createPrimitiveValue TBoolean (PBool False)
      else if ty = ''char'' then createPrimitiveValue TChar (PStr [CHR 0x00])
      else createNullValue)"

definition generateObjectId :: "nat \<Rightarrow> string \<times> nat" where
  "generateObjectId nid = (''obj_'' @ natToString nid, nid + 1)"

definition newHeapObject ::
  "string \<Rightarrow> HeapKind \<Rightarrow> string \<Rightarrow> HeapField list \<Rightarrow> nat \<Rightarrow> HeapObject" where
  "newHeapObject i k cn fs sn =
     \<lparr> h_id = i, h_type = k, h_className = cn, h_fields = fs, h_arrayElements = None,
       h_arrayLength = None, h_stringValue = None, h_isReachable = True, h_gcRoot = False,
       h_createdAtStep = sn, h_references = [] \<rparr>"

definition allocateObject :: "string \<Rightarrow> JVMState \<times> nat \<Rightarrow> string \<times> JVMState \<times> nat" where
  "allocateObject cn sn =
     (let st = fst sn; (i, nid') = generateObjectId (snd sn);
          fs = (case map_of (ma_loadedClasses (methodArea st)) cn of
                  None \<Rightarrow> []
                | Some classInfo \<Rightarrow>
                    map (\<lambda>fd. \<lparr> hf_name = fi_name fd, hf_type = fi_type fd,
                                hf_value = (case fi_initialValue fd of
                                              Some v \<Rightarrow> v
                                            | None \<Rightarrow> getDefaultValue (fi_type fd)),
                                hf_isStatic = False \<rparr>)
                        (filter (\<lambda>fd. \<not> fi_isStatic fd) (ci_fields classInfo)))
      in (i, st\<lparr> heap := heap st @ [newHeapObject i KObject cn fs (stepNumber st)] \<rparr>, nid'))"

definition allocateArray ::
  "string \<Rightarrow> Value list \<Rightarrow> JVMState \<times> nat \<Rightarrow> string \<times> JVMState \<times> nat" where
  "allocateArray elementType elements sn =
     (let st = fst sn; (i, nid') = generateObjectId (snd sn);
          ob = (newHeapObject i KArray (elementType @ ''[]'') [] (stepNumber st))
                 \<lparr> h_arrayElements := Some elements, h_arrayLength := Some (length elements) \<rparr>
      in (i, st\<lparr> heap := heap st @ [ob] \<rparr>, nid'))"

definition allocateLambda :: "string \<Rightarrow> JVMState \<times> nat \<Rightarrow> string \<times> JVMState \<times> nat" where
  "allocateLambda lambdaInfo sn =
     (let st = fst sn; (i, nid') = generateObjectId (snd sn);
          fs = [\<lparr> hf_name = ''info'', hf_type = ''String'',
                  hf_value = createPrimitiveValue TString (PStr lambdaInfo),
                  hf_isStatic = False \<rparr>]
      in (i, st\<lparr> heap := heap st @ [newHeapObject i KLambda ''Lambda'' fs (stepNumber st)] \<rparr>,
          nid'))"

subsection \<open>Operands\<close>

text \<open>
  \<open>instr.operands[0]\<close> of an instruction without operands is \<open>undefined\<close>, and reading a
  property of it throws. An operand of another kind than the cast names is ill-formed.
\<close>

definition operand0 :: "Instruction \<Rightarrow> fault + InstructionOperand" where
  "operand0 instr =
     (case operands instr of [] \<Rightarrow> Inl (JsThrow ''TypeError'') | x # _ \<Rightarrow> Inr x)"

definition asInt :: "InstructionOperand \<Rightarrow> fault + int" where
  "asInt x = (case x of OInt v \<Rightarrow> Inr v | _ \<Rightarrow> Inl IllFormed)"

definition asString :: "InstructionOperand \<Rightarrow> fault + string" where
  "asString x = (case x of OString v \<Rightarrow> Inr v | _ \<Rightarrow> Inl IllFormed)"

definition asClass :: "InstructionOperand \<Rightarrow> fault + string" where
  "asClass x = (case x of OClass v \<Rightarrow> Inr v | _ \<Rightarrow> Inl IllFormed)"

definition asType :: "InstructionOperand \<Rightarrow> fault + string" where
  "asType x = (case x of OType v \<Rightarrow> Inr v | _ \<Rightarrow> Inl IllFormed)"

definition asLabel :: "InstructionOperand \<Rightarrow> fault + int" where
  "asLabel x = (case x of OLabel v \<Rightarrow> Inr v | _ \<Rightarrow> Inl IllFormed)"

definition asLocal :: "InstructionOperand \<Rightarrow> fault + (nat \<times> string)" where
  "asLocal x = (case x of OLocal i n \<Rightarrow> Inr (i, n) | _ \<Rightarrow> Inl IllFormed)"

definition asField :: "InstructionOperand \<Rightarrow> fault + (string \<times> string)" where
  "asField x = (case x of OField v ow \<Rightarrow> Inr (v, ow) | _ \<Rightarrow> Inl IllFormed)"

definition asMethod :: "InstructionOperand \<Rightarrow> fault + (string \<times> string)" where
  "asMethod x = (case x of OMethod v d \<Rightarrow> Inr (v, d) | _ \<Rightarrow> Inl IllFormed)"

subsection \<open>The cases of executeInstruction\<close>

definition intValue :: "int \<Rightarrow> Value" where
  "intValue n = createPrimitiveValue TInt (PNum (Fin (of_int n)))"

definition boolValue :: "bool \<Rightarrow> Value" where
  "boolValue b = createPrimitiveValue TBoolean (PBool b)"

definition refTruthy :: "Value option \<Rightarrow> string option" where
  "refTruthy v = (case v of Some (Reference objectId) \<Rightarrow>
                     (if truthyStr objectId then objectId else None)
                  | _ \<Rightarrow> None)"

definition exNOP :: "nat \<Rightarrow> JVMState \<Rightarrow> JVMState" where
  "exNOP ti st = setFrame ti (incPc (getFrame ti st)) st"

definition exLINE :: "Instruction \<Rightarrow> nat \<Rightarrow> JVMState \<Rightarrow> fault + JVMState" where
  "exLINE instr ti st =
     bindF (bindF (operand0 instr) asInt) (\<lambda>v.
       Inr (setFrame ti (incPc ((getFrame ti st)\<lparr> f_lineNumber := v \<rparr>))
              (st\<lparr> pc := (pc st)\<lparr> pc_currentLine := v \<rparr> \<rparr>)))"

definition exLOAD_CONST :: "Instruction \<Rightarrow> nat \<Rightarrow> JVMState \<Rightarrow> fault + JVMState" where
  "exLOAD_CONST instr ti st =
     bindF (operand0 instr) (\<lambda>operand.
       Inr (setFrame ti (incPc (pushV (operandToValue operand) (getFrame ti st))) st))"

definition exPUSH_NULL :: "nat \<Rightarrow> JVMState \<Rightarrow> JVMState" where
  "exPUSH_NULL ti st = setFrame ti (incPc (pushV createNullValue (getFrame ti st))) st"

definition exLOAD_LOCAL :: "Instruction \<Rightarrow> nat \<Rightarrow> JVMState \<Rightarrow> fault + JVMState" where
  "exLOAD_LOCAL instr ti st =
     bindF (bindF (operand0 instr) asLocal) (\<lambda>(idx, nm).
       let f = getFrame ti st;
           v = (case find (\<lambda>lv. lv_slot lv = idx) (f_localVariables f) of
                  Some localVar \<Rightarrow> lv_value localVar
                | None \<Rightarrow> createNullValue)
       in Inr (setFrame ti (incPc (pushV v f)) st))"

definition exSTORE_LOCAL :: "Instruction \<Rightarrow> nat \<Rightarrow> JVMState \<Rightarrow> fault + JVMState" where
  "exSTORE_LOCAL instr ti st =
     bindF (bindF (operand0 instr) asLocal) (\<lambda>(idx, nm).
       let (v, f1) = popF (getFrame ti st);
           val = orNull v;
           locals = f_localVariables f1;
           locals' = (if find (\<lambda>lv. lv_slot lv = idx) locals \<noteq> None
                      then updFirst (\<lambda>lv. lv_slot lv = idx) (\<lambda>lv. lv\<lparr> lv_value := val \<rparr>) locals
                      else locals @ [\<lparr> lv_name = nm, lv_type = ''Object'', lv_value = val,
                                       lv_slot = idx \<rparr>])
       in Inr (setFrame ti (incPc (f1\<lparr> f_localVariables := locals' \<rparr>)) st))"

definition exNEW :: "Instruction \<Rightarrow> nat \<Rightarrow> JVMState \<times> nat \<Rightarrow> fault + JVMState \<times> nat" where
  "exNEW instr ti sn =
     bindF (bindF (operand0 instr) asClass) (\<lambda>cn.
       let (objectId, st1, nid1) = allocateObject cn sn
       in Inr (setFrame ti (incPc (pushV (createReferenceValue (Some objectId))
                                         (getFrame ti st1))) st1, nid1))"

text \<open>
  \<open>new Array(len)\<close> throws a RangeError unless a numeric \<open>len\<close> is an integer from 0 to
  \<open>2^32 - 1\<close>; with an argument that is not a number it builds a one-element array.
\<close>

definition newArrayOf :: "payload \<Rightarrow> Value \<Rightarrow> fault + Value list" where
  "newArrayOf len d =
     (case len of
        PNum (Fin r) \<Rightarrow>
          (if r = of_int \<lfloor>r\<rfloor> \<and> 0 \<le> r \<and> r < 2 ^ 32 then Inr (replicate (nat \<lfloor>r\<rfloor>) d)
           else Inl (JsThrow ''RangeError''))
      | PNum _ \<Rightarrow> Inl (JsThrow ''RangeError'')
      | _ \<Rightarrow> Inr [d])"

definition exNEWARRAY :: "Instruction \<Rightarrow> nat \<Rightarrow> JVMState \<times> nat \<Rightarrow> fault + JVMState \<times> nat" where
  "exNEWARRAY instr ti sn =
     bindF (bindF (operand0 instr) asType) (\<lambda>elementType.
       let (len0, f1) = popF (getFrame ti (fst sn));
           len = (case len0 of Some (Primitive t p) \<Rightarrow> p | _ \<Rightarrow> PNum (Fin 0))
       in bindF (newArrayOf len (getDefaultValue elementType)) (\<lambda>elems.
            let (arrayId, st1, nid1) = allocateArray elementType elems (setFrame ti f1 (fst sn), snd sn)
            in Inr (setFrame ti (incPc (pushV (createReferenceValue (Some arrayId))
                                              (getFrame ti st1))) st1, nid1)))"

definition exARRAYLENGTH :: "nat \<Rightarrow> JVMState \<Rightarrow> JVMState" where
  "exARRAYLENGTH ti st =
     (let (ref, f1) = popF (getFrame ti st);
          f2 = (case refTruthy ref of
                  None \<Rightarrow> f1
                | Some objectId \<Rightarrow>
                    (case heapFind (Some objectId) (heap st) of
                       None \<Rightarrow> pushV (intValue 0) f1
                     | Some ob \<Rightarrow>
                         (case h_arrayLength ob of
                            Some n \<Rightarrow> pushV (intValue (int n)) f1
                          | None \<Rightarrow> pushV (intValue 0) f1)))
      in setFrame ti (incPc f2) st)"

text \<open>
  \<open>arr[idx]\<close>: an element when \<open>idx\<close> is an element index, \<open>undefined\<close> for any other number,
  boolean or \<open>null\<close>. A string may name a property of the array object.
\<close>

definition elementIndex :: "payload \<Rightarrow> nat \<Rightarrow> nat option" where
  "elementIndex p n =
     (case p of
        PNum (Fin r) \<Rightarrow>
          (if r = of_int \<lfloor>r\<rfloor> \<and> 0 \<le> r \<and> nat \<lfloor>r\<rfloor> < n then Some (nat \<lfloor>r\<rfloor>) else None)
      | _ \<Rightarrow> None)"

definition arrayRead :: "Value list \<Rightarrow> payload \<Rightarrow> fault + Value" where
  "arrayRead arr p =
     (if isStr p then Inl Unmodelled
      else (case elementIndex p (length arr) of
              Some i \<Rightarrow> Inr (arr ! i)
            | None \<Rightarrow> Inr createNullValue))"

definition exARRAYLOAD :: "nat \<Rightarrow> JVMState \<Rightarrow> fault + JVMState" where
  "exARRAYLOAD ti st =
     (let (index, f1) = popF (getFrame ti st);
          (arrayRef, f2) = popF f1
      in (case (refTruthy arrayRef, index) of
            (Some objectId, Some (Primitive t p)) \<Rightarrow>
              (case heapFind (Some objectId) (heap st) of
                 None \<Rightarrow> Inr (setFrame ti (incPc f2) st)
               | Some ob \<Rightarrow>
                   (case h_arrayElements ob of
                      None \<Rightarrow> Inr (setFrame ti (incPc f2) st)
                    | Some arr \<Rightarrow>
                        bindF (arrayRead arr p) (\<lambda>v. Inr (setFrame ti (incPc (pushV v f2)) st))))
          | _ \<Rightarrow> Inr (setFrame ti (incPc f2) st)))"

definition exARRAYSTORE :: "nat \<Rightarrow> JVMState \<Rightarrow> fault + JVMState" where
  "exARRAYSTORE ti st =
     (let (val, f1) = popF (getFrame ti st);
          (index, f2) = popF f1;
          (arrayRef, f3) = popF f2
      in (case (refTruthy arrayRef, index, val) of
            (Some objectId, Some (Primitive t p), Some v) \<Rightarrow>
              (case heapFind (Some objectId) (heap st) of
                 None \<Rightarrow> Inr (setFrame ti (incPc f3) st)
               | Some ob \<Rightarrow>
                   (case h_arrayElements ob of
                      None \<Rightarrow> Inr (setFrame ti (incPc f3) st)
                    | Some arr \<Rightarrow>
                        (case elementIndex p (length arr) of
                           None \<Rightarrow> Inl Unmodelled
                         | Some i \<Rightarrow>
                             Inr (setFrame ti (incPc f3)
                                   (st\<lparr> heap := heapUpd objectId
                                          (\<lambda>o'. o'\<lparr> h_arrayElements := Some (arr[i := v]) \<rparr>)
                                          (heap st) \<rparr>)))))
          | _ \<Rightarrow> Inr (setFrame ti (incPc f3) st)))"

definition exGETFIELD :: "Instruction \<Rightarrow> nat \<Rightarrow> JVMState \<Rightarrow> fault + JVMState" where
  "exGETFIELD instr ti st =
     bindF (bindF (operand0 instr) asField) (\<lambda>(fname, owner).
       let (objRef, f1) = popF (getFrame ti st);
           v = (case refTruthy objRef of
                  None \<Rightarrow> createNullValue
                | Some objectId \<Rightarrow>
                    (case heapFind (Some objectId) (heap st) of
                       None \<Rightarrow> createNullValue
                     | Some ob \<Rightarrow>
                         if fname = ''length'' \<and> h_type ob = KArray
                         then intValue (case h_arrayLength ob of
                                          Some n \<Rightarrow> int n
                                        | None \<Rightarrow> (case h_arrayElements ob of
                                                     Some arr \<Rightarrow> int (length arr)
                                                   | None \<Rightarrow> 0))
                         else (case find (\<lambda>fd. hf_name fd = fname) (h_fields ob) of
                                 Some fd \<Rightarrow> hf_value fd
                               | None \<Rightarrow> createNullValue)))
       in Inr (setFrame ti (incPc (pushV v f1)) st))"

definition putField :: "string \<Rightarrow> Value \<Rightarrow> HeapObject \<Rightarrow> HeapObject" where
  "putField fname val ob =
     (if find (\<lambda>fd. hf_name fd = fname) (h_fields ob) \<noteq> None
      then ob\<lparr> h_fields := updFirst (\<lambda>fd. hf_name fd = fname)
                              (\<lambda>fd. fd\<lparr> hf_value := val \<rparr>) (h_fields ob) \<rparr>
      else ob\<lparr> h_fields := h_fields ob @
                 [\<lparr> hf_name = fname, hf_type = ''Object'', hf_value = val,
                    hf_isStatic = False \<rparr>] \<rparr>)"

definition exPUTFIELD :: "Instruction \<Rightarrow> nat \<Rightarrow> JVMState \<Rightarrow> fault + JVMState" where
  "exPUTFIELD instr ti st =
     bindF (bindF (operand0 instr) asField) (\<lambda>(fname, owner).
       let (v, f1) = popF (getFrame ti st);
           val = orNull v;
           (objRef, f2) = popF f1;
           hp = (case refTruthy objRef of
                   None \<Rightarrow> heap st
                 | Some objectId \<Rightarrow> heapUpd objectId (putField fname val) (heap st))
       in Inr (setFrame ti (incPc f2) (st\<lparr> heap := hp \<rparr>)))"

definition staticClass :: "string \<Rightarrow> StackFrame \<Rightarrow> string" where
  "staticClass owner f = (if owner \<noteq> [] then owner else f_className f)"

definition exGETSTATIC :: "Instruction \<Rightarrow> nat \<Rightarrow> JVMState \<Rightarrow> fault + JVMState" where
  "exGETSTATIC instr ti st =
     bindF (bindF (operand0 instr) asField) (\<lambda>(fname, owner).
       let f = getFrame ti st;
           cn = staticClass owner f;
           v = (case map_of (ma_staticFields (methodArea st)) cn of
                  None \<Rightarrow> createNullValue
                | Some fs \<Rightarrow> (case map_of fs fname of
                               Some x \<Rightarrow> x
                             | None \<Rightarrow> createNullValue))
       in Inr (setFrame ti (incPc (pushV v f)) st))"

definition exPUTSTATIC :: "Instruction \<Rightarrow> nat \<Rightarrow> JVMState \<Rightarrow> fault + JVMState" where
  "exPUTSTATIC instr ti st =
     bindF (bindF (operand0 instr) asField) (\<lambda>(fname, owner).
       let (v, f1) = popF (getFrame ti st);
           val = orNull v;
           cn = staticClass owner f1;
           sfs = ma_staticFields (methodArea st);
           fs = (case map_of sfs cn of None \<Rightarrow> [] | Some x \<Rightarrow> x);
           ma = (methodArea st)\<lparr> ma_staticFields := assocSet cn (assocSet fname val fs) sfs \<rparr>
       in Inr (setFrame ti (incPc f1) (st\<lparr> methodArea := ma \<rparr>)))"

definition exDUP :: "nat \<Rightarrow> JVMState \<Rightarrow> JVMState" where
  "exDUP ti st =
     (let f = getFrame ti st;
          f1 = (if f_operandStack f = [] then f else pushV (last (f_operandStack f)) f)
      in setFrame ti (incPc f1) st)"

definition exDUP_X1 :: "nat \<Rightarrow> JVMState \<Rightarrow> JVMState" where
  "exDUP_X1 ti st =
     (let (value1, f1) = popF (getFrame ti st);
          (value2, f2) = popF f1;
          f3 = (case (value1, value2) of
                  (Some v1, Some v2) \<Rightarrow> pushV v1 (pushV v2 (pushV v1 f2))
                | _ \<Rightarrow> f2)
      in setFrame ti (incPc f3) st)"

definition exPOP :: "nat \<Rightarrow> JVMState \<Rightarrow> JVMState" where
  "exPOP ti st = setFrame ti (incPc (snd (popF (getFrame ti st)))) st"

definition exSWAP :: "nat \<Rightarrow> JVMState \<Rightarrow> JVMState" where
  "exSWAP ti st =
     (let (a, f1) = popF (getFrame ti st);
          (b, f2) = popF f1;
          f3 = (case a of Some x \<Rightarrow> pushV x f2 | None \<Rightarrow> f2);
          f4 = (case b of Some y \<Rightarrow> pushV y f3 | None \<Rightarrow> f3)
      in setFrame ti (incPc f4) st)"

definition isStringPrim :: "Value option \<Rightarrow> bool" where
  "isStringPrim v = (case v of Some (Primitive t p) \<Rightarrow> t = TString | _ \<Rightarrow> False)"

definition concatText :: "'a js_host_scheme \<Rightarrow> Value option \<Rightarrow> string" where
  "concatText h v =
     (case v of
        None \<Rightarrow> ''null''
      | Some (Primitive t p) \<Rightarrow> (if p = PNull then ''null'' else toStr h p)
      | Some (Reference objectId) \<Rightarrow>
          (if truthyStr objectId then ''ref@'' @ the objectId else ''null'')
      | Some x \<Rightarrow> valueToString h x)"

definition arithResult ::
  "'a js_host_scheme \<Rightarrow> OpCode \<Rightarrow> PrimitiveType \<Rightarrow> PrimitiveType \<Rightarrow> payload \<Rightarrow> payload \<Rightarrow> payload" where
  "arithResult h opc ta tb av bv =
     (if opc = ''ADD'' then jsPlus h av bv
      else if opc = ''SUB'' then PNum (jsSub (toNumber h av) (toNumber h bv))
      else if opc = ''MUL'' then PNum (jsMul (toNumber h av) (toNumber h bv))
      else if opc = ''DIV'' then
        (let r = (if \<not> strictEq bv (PNum (Fin 0)) then jsDiv (toNumber h av) (toNumber h bv)
                  else Fin 0)
         in PNum (if ta = TInt \<and> tb = TInt then mathTrunc r else r))
      else if opc = ''MOD'' then
        PNum (if \<not> strictEq bv (PNum (Fin 0)) then jsRem (toNumber h av) (toNumber h bv)
              else Fin 0)
      else PNum (Fin 0))"

definition exArith :: "'a js_host_scheme \<Rightarrow> Instruction \<Rightarrow> nat \<Rightarrow> JVMState \<Rightarrow> JVMState" where
  "exArith h instr ti st =
     (let (b, f1) = popF (getFrame ti st);
          (a, f2) = popF f1
      in if opcode instr = ''ADD'' \<and> (isStringPrim a \<or> isStringPrim b)
         then setFrame ti (incPc (pushV (createPrimitiveValue TString
                                           (PStr (concatText h a @ concatText h b))) f2)) st
         else (case (a, b) of
                 (Some (Primitive ta av), Some (Primitive tb bv)) \<Rightarrow>
                   setFrame ti (incPc (pushV (createPrimitiveValue ta
                                                (arithResult h (opcode instr) ta tb av bv)) f2)) st
               | _ \<Rightarrow> setFrame ti (incPc (pushV createNullValue f2)) st))"

definition exNEG :: "'a js_host_scheme \<Rightarrow> nat \<Rightarrow> JVMState \<Rightarrow> JVMState" where
  "exNEG h ti st =
     (let (a, f1) = popF (getFrame ti st);
          f2 = (case a of
                  Some (Primitive t p) \<Rightarrow>
                    pushV (createPrimitiveValue t (PNum (jsNeg (toNumber h p)))) f1
                | _ \<Rightarrow> f1)
      in setFrame ti (incPc f2) st)"

definition cmpPrim :: "'a js_host_scheme \<Rightarrow> OpCode \<Rightarrow> payload \<Rightarrow> payload \<Rightarrow> bool" where
  "cmpPrim h opc av bv =
     (if opc = ''CMP_EQ'' then strictEq av bv
      else if opc = ''CMP_NE'' then \<not> strictEq av bv
      else if opc = ''CMP_LT'' then relLess h av bv
      else if opc = ''CMP_LE'' then relLessEq h av bv
      else if opc = ''CMP_GT'' then relLess h bv av
      else if opc = ''CMP_GE'' then relLessEq h bv av
      else False)"

definition exCmp :: "'a js_host_scheme \<Rightarrow> Instruction \<Rightarrow> nat \<Rightarrow> JVMState \<Rightarrow> JVMState" where
  "exCmp h instr ti st =
     (let (b, f1) = popF (getFrame ti st);
          (a, f2) = popF f1;
          res = (case (a, b) of
                   (Some (Primitive ta av), Some (Primitive tb bv)) \<Rightarrow>
                     cmpPrim h (opcode instr) av bv
                 | (Some (Reference ia), Some (Reference ib)) \<Rightarrow>
                     (if opcode instr = ''CMP_EQ'' then ia = ib
                      else if opcode instr = ''CMP_NE'' then ia \<noteq> ib
                      else False)
                 | _ \<Rightarrow> False)
      in setFrame ti (incPc (pushV (boolValue res) f2)) st)"

definition primTruthy :: "Value option \<Rightarrow> bool" where
  "primTruthy v = (case v of Some (Primitive t p) \<Rightarrow> truthy p | _ \<Rightarrow> False)"

definition exAND :: "nat \<Rightarrow> JVMState \<Rightarrow> JVMState" where
  "exAND ti st =
     (let (b, f1) = popF (getFrame ti st);
          (a, f2) = popF f1
      in setFrame ti (incPc (pushV (boolValue (primTruthy a \<and> primTruthy b)) f2)) st)"

definition exOR :: "nat \<Rightarrow> JVMState \<Rightarrow> JVMState" where
  "exOR ti st =
     (let (b, f1) = popF (getFrame ti st);
          (a, f2) = popF f1
      in setFrame ti (incPc (pushV (boolValue (primTruthy a \<or> primTruthy b)) f2)) st)"

definition exNOT :: "nat \<Rightarrow> JVMState \<Rightarrow> JVMState" where
  "exNOT ti st =
     (let (a, f1) = popF (getFrame ti st)
      in setFrame ti (incPc (pushV (boolValue (\<not> primTruthy a)) f1)) st)"

definition exGOTO :: "Instruction \<Rightarrow> nat \<Rightarrow> JVMState \<Rightarrow> fault + JVMState" where
  "exGOTO instr ti st =
     bindF (bindF (operand0 instr) asLabel) (\<lambda>target.
       Inr (setFrame ti ((getFrame ti st)\<lparr> f_pc := target \<rparr>) st))"

definition exIF_TRUE :: "Instruction \<Rightarrow> nat \<Rightarrow> JVMState \<Rightarrow> fault + JVMState" where
  "exIF_TRUE instr ti st =
     (let (condition, f1) = popF (getFrame ti st)
      in bindF (bindF (operand0 instr) asLabel) (\<lambda>target.
           Inr (setFrame ti (if primTruthy condition then f1\<lparr> f_pc := target \<rparr>
                             else incPc f1) st)))"

definition exIF_FALSE :: "Instruction \<Rightarrow> nat \<Rightarrow> JVMState \<Rightarrow> fault + JVMState" where
  "exIF_FALSE instr ti st =
     (let (condition, f1) = popF (getFrame ti st)
      in bindF (bindF (operand0 instr) asLabel) (\<lambda>target.
           Inr (setFrame ti
                  (if (case condition of Some (Primitive t p) \<Rightarrow> \<not> truthy p | _ \<Rightarrow> False)
                   then f1\<lparr> f_pc := target \<rparr> else incPc f1) st)))"

text \<open>
  While an instruction runs, \<open>state.stack\<close> is the very array of the running thread
  (\<open>step\<close> assigns it before the call), so \<open>this.state.stack.pop()\<close> removes that thread's
  top frame.
\<close>

definition popFrame :: "nat \<Rightarrow> JVMState \<Rightarrow> JVMState" where
  "popFrame ti st = updThread ti (\<lambda>t. t\<lparr> t_stack := butlast (t_stack t) \<rparr>) st"

definition exRETURN :: "nat \<Rightarrow> JVMState \<Rightarrow> JVMState" where
  "exRETURN ti st = popFrame ti st"

definition exRETURN_VALUE :: "nat \<Rightarrow> JVMState \<Rightarrow> JVMState" where
  "exRETURN_VALUE ti st =
     (let (returnValue, f1) = popF (getFrame ti st);
          st1 = popFrame ti (setFrame ti f1 st)
      in (case (activeThreadState st1, returnValue) of
            (Some t, Some rv) \<Rightarrow>
              (if t_stack t = [] then st1
               else updThread (activeThread st1) (setTop (pushV rv (last (t_stack t)))) st1)
          | _ \<Rightarrow> st1))"

text \<open>\<open>s.replace(/^"|"$/g, '')\<close> removes one leading and one trailing double quote.\<close>

definition stripQuotes :: "string \<Rightarrow> string" where
  "stripQuotes s =
     (let s1 = (case s of c # cs \<Rightarrow> (if c = CHR 0x22 then cs else s) | [] \<Rightarrow> s)
      in if s1 \<noteq> [] \<and> last s1 = CHR 0x22 then butlast s1 else s1)"

definition printText :: "'a js_host_scheme \<Rightarrow> Value option \<Rightarrow> string" where
  "printText h v = (case v of Some x \<Rightarrow> stripQuotes (valueToString h x) | None \<Rightarrow> ''null'')"

definition printOutput :: "string \<Rightarrow> bool \<Rightarrow> string list \<Rightarrow> string list" where
  "printOutput outputStr isPrintln out =
     (let out0 = (if length out = 0 then out @ [[]] else out);
          out1 = butlast out0 @ [last out0 @ outputStr]
      in if isPrintln then out1 @ [[]] else out1)"

definition printlnOperand :: "Instruction \<Rightarrow> fault + bool" where
  "printlnOperand instr =
     (case operands instr of
        [] \<Rightarrow> Inr True
      | OBoolean b # _ \<Rightarrow> Inr b
      | _ \<Rightarrow> Inl IllFormed)"

definition exPRINT :: "'a js_host_scheme \<Rightarrow> Instruction \<Rightarrow> nat \<Rightarrow> JVMState \<Rightarrow> fault + JVMState" where
  "exPRINT h instr ti st =
     bindF (printlnOperand instr) (\<lambda>isPrintln.
       let (v, f1) = popF (getFrame ti st)
       in Inr (setFrame ti (incPc f1)
                 (st\<lparr> output := printOutput (printText h v) isPrintln (output st) \<rparr>)))"

definition lockObjectId :: "Value option \<Rightarrow> string option" where
  "lockObjectId lockRef = (case lockRef of Some (Reference objectId) \<Rightarrow> objectId | _ \<Rightarrow> None)"

definition exMONITORENTER :: "nat \<Rightarrow> JVMState \<Rightarrow> JVMState" where
  "exMONITORENTER ti st =
     (let (lockRef, f1) = popF (getFrame ti st);
          st1 = setFrame ti f1 st;
          objectId = lockObjectId lockRef
      in (case (truthyStr objectId, activeThreadState st1) of
            (True, Some activeT) \<Rightarrow>
              (let (acquired, st2) = acquireMonitor (the objectId) (t_id activeT) st1
               in if \<not> acquired
                  then (let st3 = updThread (activeThread st2)
                                    (\<lambda>t. t\<lparr> t_status := BLOCKED,
                                             t_waitingOnMonitor := objectId \<rparr>) st2
                        in setFrame ti (pushV (the lockRef) (getFrame ti st3)) st3)
                  else setFrame ti (incPc (getFrame ti st2)) st2)
          | _ \<Rightarrow> setFrame ti (incPc (getFrame ti st1)) st1))"

definition exMONITOREXIT :: "nat \<Rightarrow> JVMState \<Rightarrow> JVMState" where
  "exMONITOREXIT ti st =
     (let (lockRef, f1) = popF (getFrame ti st);
          st1 = setFrame ti f1 st;
          objectId = lockObjectId lockRef;
          st2 = (case (truthyStr objectId, activeThreadState st1) of
                   (True, Some activeT) \<Rightarrow> releaseMonitor (the objectId) (t_id activeT) st1
                 | _ \<Rightarrow> st1)
      in setFrame ti (incPc (getFrame ti st2)) st2)"

definition exLAMBDA_CREATE :: "Instruction \<Rightarrow> nat \<Rightarrow> JVMState \<times> nat \<Rightarrow> fault + JVMState \<times> nat" where
  "exLAMBDA_CREATE instr ti sn =
     bindF (bindF (operand0 instr) asString) (\<lambda>lambdaInfo.
       let (lambdaId, st1, nid1) = allocateLambda lambdaInfo sn
       in Inr (setFrame ti (incPc (pushV (createReferenceValue (Some lambdaId))
                                         (getFrame ti st1))) st1, nid1))"

definition exINSTANCEOF :: "Instruction \<Rightarrow> nat \<Rightarrow> JVMState \<Rightarrow> fault + JVMState" where
  "exINSTANCEOF instr ti st =
     bindF (bindF (operand0 instr) asType) (\<lambda>ty.
       let (ref, f1) = popF (getFrame ti st);
           res = (case refTruthy ref of
                    None \<Rightarrow> False
                  | Some objectId \<Rightarrow>
                      (case heapFind (Some objectId) (heap st) of
                         None \<Rightarrow> False
                       | Some ob \<Rightarrow> h_className ob = ty \<or> ty = ''Object''))
       in Inr (setFrame ti (incPc (pushV (boolValue res) f1)) st))"

definition exTHROW :: "'a js_host_scheme \<Rightarrow> nat \<Rightarrow> JVMState \<Rightarrow> JVMState" where
  "exTHROW h ti st =
     (let (exRef, f1) = popF (getFrame ti st);
          exObj = (case refTruthy exRef of
                     None \<Rightarrow> None
                   | Some objectId \<Rightarrow> heapFind (Some objectId) (heap st));
          exType = (case exObj of
                      Some ob \<Rightarrow> (if h_className ob \<noteq> [] then h_className ob
                                  else ''RuntimeException'')
                    | None \<Rightarrow> ''RuntimeException'');
          msgField = (case exObj of
                        Some ob \<Rightarrow> find (\<lambda>fd. hf_name fd = ''message''
                                              \<or> hf_name fd = ''detailMessage'') (h_fields ob)
                      | None \<Rightarrow> None);
          exMsg = (case msgField of
                     Some fd \<Rightarrow> (case hf_value fd of Primitive t p \<Rightarrow> toStr h p | _ \<Rightarrow> exType)
                   | None \<Rightarrow> exType)
      in (setFrame ti f1 st)\<lparr> error := Some (exType @ '': '' @ exMsg), status := Error \<rparr>)"

subsection \<open>Walking the class table\<close>

definition findClass :: "CompiledProgram \<Rightarrow> string \<Rightarrow> CompiledClass option" where
  "findClass prog n = find (\<lambda>c. cc_name c = n) (classes prog)"

definition findMethod :: "CompiledClass \<Rightarrow> string \<Rightarrow> CompiledMethod option" where
  "findMethod c m = find (\<lambda>x. cm_methodName x = m) (cc_methods c)"

text \<open>
  The loops below follow \<open>superClass\<close> links and end only when the chain ends, so they
  are \<open>while_option\<close> loops: \<open>None\<close> is a walk that never returns.
\<close>

definition isSubclassOf :: "CompiledProgram \<Rightarrow> string \<Rightarrow> string \<Rightarrow> bool option" where
  "isSubclassOf prog childClass parentClass =
     (if childClass = [] \<or> childClass = parentClass then Some True
      else map_option (\<lambda>(current, res). (case res of Some b \<Rightarrow> b | None \<Rightarrow> False))
             (while_option
                (\<lambda>(current, res). res = None \<and> current \<noteq> [] \<and> current \<noteq> ''Object'')
                (\<lambda>(current, res).
                   (case findClass prog current of
                      None \<Rightarrow> (current, Some False)
                    | Some cls \<Rightarrow>
                        if cc_superClass cls = parentClass then (current, Some True)
                        else (cc_superClass cls, None)))
                (childClass, None)))"

definition lookupMethod ::
  "CompiledProgram \<Rightarrow> string \<Rightarrow> string \<Rightarrow> (CompiledClass option \<times> CompiledMethod option) option" where
  "lookupMethod prog targetClassName methodName =
     (let targetClass = findClass prog targetClassName;
          methodNode = (case targetClass of None \<Rightarrow> None | Some c \<Rightarrow> findMethod c methodName);
          currentClassStr = map_option cc_superClass targetClass
      in map_option (\<lambda>(tc, mn, cur, broke). (tc, mn))
           (while_option
              (\<lambda>(tc, mn, cur, broke).
                 \<not> broke \<and> mn = None \<and> truthyStr cur \<and> cur \<noteq> Some ''Object'')
              (\<lambda>(tc, mn, cur, broke).
                 (case findClass prog (the cur) of
                    None \<Rightarrow> (None, mn, cur, True)
                  | Some c \<Rightarrow> (Some c, findMethod c methodName, Some (cc_superClass c), False)))
              (targetClass, methodNode, currentClassStr, False)))"

definition lookupRun ::
  "CompiledProgram \<Rightarrow> string \<Rightarrow> (CompiledMethod option \<times> string) option" where
  "lookupRun prog runClassName =
     (let runMethodNode = (case findClass prog runClassName of
                             None \<Rightarrow> None
                           | Some c \<Rightarrow> findMethod c ''run'')
      in if runMethodNode \<noteq> None then Some (runMethodNode, runClassName)
         else map_option (\<lambda>(sc, rm, resolved). (rm, resolved))
                (while_option
                   (\<lambda>(sc, rm, resolved).
                      rm = None \<and> truthyStr sc \<and> sc \<noteq> Some ''Object'' \<and> sc \<noteq> Some ''Thread'')
                   (\<lambda>(sc, rm, resolved).
                      (let cls = findClass prog (the sc);
                           rm' = (case cls of None \<Rightarrow> None | Some c \<Rightarrow> findMethod c ''run'')
                       in if rm' \<noteq> None then (sc, rm', the sc)
                          else (map_option cc_superClass cls, None, resolved)))
                   (map_option cc_superClass (findClass prog runClassName), None, runClassName)))"

subsection \<open>The standard library: Thread and String.hashCode\<close>

definition objOf :: "Value option \<Rightarrow> HeapObject list \<Rightarrow> HeapObject option" where
  "objOf objRef hp = (case refTruthy objRef of
                        None \<Rightarrow> None
                      | Some objectId \<Rightarrow> heapFind (Some objectId) hp)"

definition fieldOf :: "HeapObject option \<Rightarrow> string \<Rightarrow> HeapField option" where
  "fieldOf ob n = (case ob of None \<Rightarrow> None | Some x \<Rightarrow> find (\<lambda>fd. hf_name fd = n) (h_fields x))"

text \<open>\<open>f?.value.kind === 'primitive' ? String(f.value.value) : null\<close>\<close>

definition primText :: "'a js_host_scheme \<Rightarrow> HeapField option \<Rightarrow> string option" where
  "primText h fd = (case fd of
                      Some x \<Rightarrow> (case hf_value x of Primitive t p \<Rightarrow> Some (toStr h p) | _ \<Rightarrow> None)
                    | None \<Rightarrow> None)"

definition argPrim :: "Value list \<Rightarrow> nat \<Rightarrow> payload option" where
  "argPrim args i = (if i < length args
                     then (case args ! i of Primitive t p \<Rightarrow> Some p | _ \<Rightarrow> None)
                     else None)"

definition mkField :: "string \<Rightarrow> string \<Rightarrow> Value \<Rightarrow> HeapField" where
  "mkField n ty v = \<lparr> hf_name = n, hf_type = ty, hf_value = v, hf_isStatic = False \<rparr>"

definition strValue :: "string \<Rightarrow> Value" where
  "strValue s = createPrimitiveValue TString (PStr s)"

definition threadFields :: "string \<Rightarrow> string \<Rightarrow> HeapField list" where
  "threadFields threadId threadName =
     [mkField ''$threadId'' ''String'' (strValue threadId),
      mkField ''name'' ''String'' (strValue threadName),
      mkField ''priority'' ''int'' (createPrimitiveValue TInt (PNum (Fin 5))),
      mkField ''daemon'' ''boolean'' (createPrimitiveValue TBoolean (PBool False)),
      mkField ''$status'' ''String'' (strValue ''NEW'')]"

definition addFields :: "HeapField list \<Rightarrow> HeapObject \<Rightarrow> HeapObject" where
  "addFields fs ob = ob\<lparr> h_fields := h_fields ob @ fs \<rparr>"

definition setFieldValue :: "string \<Rightarrow> Value \<Rightarrow> HeapObject \<Rightarrow> HeapObject" where
  "setFieldValue n v ob =
     ob\<lparr> h_fields := updFirst (\<lambda>fd. hf_name fd = n) (\<lambda>fd. fd\<lparr> hf_value := v \<rparr>) (h_fields ob) \<rparr>"

fun statusName :: "ThreadStatus \<Rightarrow> string" where
  "statusName NEW = ''NEW''"
| "statusName RUNNABLE = ''RUNNABLE''"
| "statusName RUNNING = ''RUNNING''"
| "statusName BLOCKED = ''BLOCKED''"
| "statusName WAITING = ''WAITING''"
| "statusName TIMED_WAITING = ''TIMED_WAITING''"
| "statusName TERMINATED = ''TERMINATED''"

definition updActive :: "(ThreadState \<Rightarrow> ThreadState) \<Rightarrow> JVMState \<Rightarrow> JVMState" where
  "updActive g st = (if activeThread st < length (threads st)
                     then updThread (activeThread st) g st else st)"

definition pushOn :: "nat \<Rightarrow> Value \<Rightarrow> JVMState \<Rightarrow> JVMState" where
  "pushOn ti v st = setFrame ti (pushV v (getFrame ti st)) st"

definition thrInit :: "'a js_host_scheme \<Rightarrow> StdCall \<Rightarrow> JVMState \<Rightarrow> JVMState" where
  "thrInit h call st =
     (case objOf (sc_objRef call) (heap st) of
        None \<Rightarrow> st
      | Some ob \<Rightarrow>
          if fieldOf (Some ob) ''$threadId'' \<noteq> None then st
          else (let n = natToString (length (threads st));
                    threadName = (case argPrim (sc_args call) 0 of
                                    Some p \<Rightarrow> toStr h p
                                  | None \<Rightarrow> ''Thread-'' @ n)
                in st\<lparr> heap := heapUpd (h_id ob)
                                  (addFields (threadFields (''thread_'' @ n) threadName))
                                  (heap st) \<rparr>))"

definition objectIdOf :: "Value option \<Rightarrow> string option" where
  "objectIdOf v = (case v of
                     Some (Reference objectId) \<Rightarrow> objectId
                   | Some (ArrayValue objectId et) \<Rightarrow> Some objectId
                   | Some (LambdaValue objectId cv tm) \<Rightarrow> Some objectId
                   | _ \<Rightarrow> None)"

text \<open>
  \<open>start\<close>, in the order of the source: the heap object of the receiver; the fields of
  a \<open>Thread\<close> object that was never initialised; the new thread.
\<close>

definition startObject :: "StdCall \<Rightarrow> JVMState \<Rightarrow> HeapObject option" where
  "startObject call st =
     (case objOf (sc_objRef call) (heap st) of
        Some ob \<Rightarrow> Some ob
      | None \<Rightarrow> (if truthyStr (objectIdOf (sc_objRef call))
                 then heapFind (objectIdOf (sc_objRef call)) (heap st)
                 else None))"

definition ensureThreadFields :: "HeapObject option \<Rightarrow> JVMState \<Rightarrow> JVMState" where
  "ensureThreadFields threadObj0 st =
     (case threadObj0 of
        None \<Rightarrow> st
      | Some ob \<Rightarrow>
          if fieldOf (Some ob) ''$threadId'' \<noteq> None then st
          else (let n = natToString (length (threads st))
                in st\<lparr> heap := heapUpd (h_id ob)
                                  (addFields (threadFields (''thread_'' @ n) (''Thread-'' @ n)))
                                  (heap st) \<rparr>))"

definition spawnThread ::
  "host \<Rightarrow> CompiledProgram \<Rightarrow> StdCall \<Rightarrow> string \<Rightarrow> HeapObject option \<Rightarrow> CompiledMethod \<Rightarrow>
   string \<Rightarrow> JVMState \<Rightarrow> JVMState" where
  "spawnThread h prog call runClassName threadObj runMethodNode resolvedClass st1 =
     (let n = natToString (length (threads st1));
          tname = (case primText h (fieldOf threadObj ''name'') of
                     Some x \<Rightarrow> x | None \<Rightarrow> ''Thread-'' @ n);
          threadId = (case primText h (fieldOf threadObj ''$threadId'') of
                        Some x \<Rightarrow> x | None \<Rightarrow> ''thread_'' @ n);
          sig = cm_signature runMethodNode;
          startIdx = (case map_of (methodOffsets prog) (resolvedClass @ ''.'' @ sig) of
                        Some i \<Rightarrow> i | None \<Rightarrow> 0);
          thisValue = (case sc_objRef call of
                         Some v \<Rightarrow> v
                       | None \<Rightarrow> (case threadObj of
                                    Some ob \<Rightarrow> createReferenceValue (Some (h_id ob))
                                  | None \<Rightarrow> createNullValue));
          runFrame = \<lparr> f_id = frameId h, f_className = resolvedClass,
                       f_methodName = ''run'', f_methodSignature = sig,
                       f_localVariables =
                         [\<lparr> lv_name = ''this'', lv_type = runClassName,
                            lv_value = thisValue, lv_slot = 0 \<rparr>],
                       f_operandStack = [], f_pc = int startIdx, f_lineNumber = 0,
                       f_isNative = False, f_capturedVariables = None \<rparr>;
          newThread = \<lparr> t_id = threadId, t_name = tname, t_stack = [runFrame],
                        t_status = RUNNABLE, t_sleepUntilStep = None,
                        t_waitingOnMonitor = None, t_holdingMonitors = [],
                        t_objectId = map_option h_id threadObj, t_priority = 5,
                        t_isDaemon = False, t_stepCount = 0,
                        t_interrupted = False \<rparr>;
          st2 = st1\<lparr> threads := threads st1 @ [newThread] \<rparr>
      in (case threadObj of
            None \<Rightarrow> st2
          | Some ob \<Rightarrow>
              st2\<lparr> heap := heapUpd (h_id ob)
                      (setFieldValue ''$status'' (strValue ''RUNNABLE''))
                      (heap st2) \<rparr>))"

definition thrStart ::
  "host \<Rightarrow> CompiledProgram \<Rightarrow> StdCall \<Rightarrow> JVMState \<Rightarrow> fault + JVMState" where
  "thrStart h prog call st =
     (let threadObj0 = startObject call st;
          runClassName = (case threadObj0 of
                            Some ob \<Rightarrow> h_className ob
                          | None \<Rightarrow> sc_className call)
      in if threadObj0 = None \<and> runClassName = ''Thread'' then Inr st
         else
          (let st1 = ensureThreadFields threadObj0 st;
               threadObj = (case threadObj0 of
                              None \<Rightarrow> None
                            | Some ob \<Rightarrow> heapFind (Some (h_id ob)) (heap st1))
           in (case lookupRun prog runClassName of
                 None \<Rightarrow> Inl Diverges
               | Some (None, resolvedClass) \<Rightarrow> Inr st1
               | Some (Some runMethodNode, resolvedClass) \<Rightarrow>
                   Inr (spawnThread h prog call runClassName threadObj runMethodNode
                          resolvedClass st1))))"

definition thrSleep :: "'a js_host_scheme \<Rightarrow> StdCall \<Rightarrow> JVMState \<Rightarrow> JVMState" where
  "thrSleep h call st =
     (let ms = (case argPrim (sc_args call) 0 of Some p \<Rightarrow> toNumber h p | None \<Rightarrow> Fin 100);
          steps = mathMax (Fin 1) (mathRound (jsDiv ms (Fin 50)))
      in updActive (\<lambda>t. t\<lparr> t_status := TIMED_WAITING,
                            t_sleepUntilStep := Some (Val (jsAdd (Fin (of_nat (stepNumber st))) steps)) \<rparr>)
           st)"

definition thrJoin :: "'a js_host_scheme \<Rightarrow> StdCall \<Rightarrow> JVMState \<Rightarrow> JVMState" where
  "thrJoin h call st =
     (let ob = objOf (sc_objRef call) (heap st);
          targetId = primText h (fieldOf ob ''$threadId'')
      in if ob \<noteq> None \<and> truthyStr targetId
         then (case find (\<lambda>t. t_id t = the targetId) (threads st) of
                 None \<Rightarrow> st
               | Some targetThread \<Rightarrow>
                   if t_status targetThread \<noteq> TERMINATED
                   then updActive (\<lambda>t. t\<lparr> t_status := WAITING,
                                          t_waitingOnMonitor := targetId \<rparr>) st
                   else st)
         else st)"

definition thrWait :: "StdCall \<Rightarrow> JVMState \<Rightarrow> JVMState" where
  "thrWait call st =
     (case (refTruthy (sc_objRef call), activeThreadState st) of
        (Some objectId, Some activeT) \<Rightarrow>
          releaseMonitor objectId (t_id activeT)
            (updActive (\<lambda>t. t\<lparr> t_status := WAITING, t_waitingOnMonitor := Some objectId \<rparr>) st)
      | _ \<Rightarrow> st)"

definition wakeUp :: "ThreadState \<Rightarrow> ThreadState" where
  "wakeUp t = t\<lparr> t_status := RUNNABLE, t_waitingOnMonitor := None \<rparr>"

definition waitsOn :: "string \<Rightarrow> ThreadState \<Rightarrow> bool" where
  "waitsOn objectId t = (t_status t = WAITING \<and> t_waitingOnMonitor t = Some objectId)"

definition thrNotify :: "StdCall \<Rightarrow> JVMState \<Rightarrow> JVMState" where
  "thrNotify call st =
     (case refTruthy (sc_objRef call) of
        Some objectId \<Rightarrow> st\<lparr> threads := updFirst (waitsOn objectId) wakeUp (threads st) \<rparr>
      | None \<Rightarrow> st)"

definition thrNotifyAll :: "StdCall \<Rightarrow> JVMState \<Rightarrow> JVMState" where
  "thrNotifyAll call st =
     (case refTruthy (sc_objRef call) of
        Some objectId \<Rightarrow>
          st\<lparr> threads := map (\<lambda>t. if waitsOn objectId t then wakeUp t else t) (threads st) \<rparr>
      | None \<Rightarrow> st)"

definition thrGetName :: "'a js_host_scheme \<Rightarrow> StdCall \<Rightarrow> JVMState \<Rightarrow> string" where
  "thrGetName h call st =
     (case objOf (sc_objRef call) (heap st) of
        Some ob \<Rightarrow> (case primText h (fieldOf (Some ob) ''name'') of
                      Some n \<Rightarrow> n | None \<Rightarrow> ''main'')
      | None \<Rightarrow> (case activeThreadState st of Some t \<Rightarrow> t_name t | None \<Rightarrow> ''main''))"

definition thrGetId :: "'a js_host_scheme \<Rightarrow> StdCall \<Rightarrow> JVMState \<Rightarrow> string" where
  "thrGetId h call st =
     (case objOf (sc_objRef call) (heap st) of
        Some ob \<Rightarrow> (case primText h (fieldOf (Some ob) ''$threadId'') of
                      Some n \<Rightarrow> n | None \<Rightarrow> ''main'')
      | None \<Rightarrow> (case activeThreadState st of Some t \<Rightarrow> t_id t | None \<Rightarrow> ''main''))"

definition thrGetState :: "'a js_host_scheme \<Rightarrow> StdCall \<Rightarrow> JVMState \<Rightarrow> string" where
  "thrGetState h call st =
     (let tId = (case objOf (sc_objRef call) (heap st) of
                   Some ob \<Rightarrow> primText h (fieldOf (Some ob) ''$threadId'')
                 | None \<Rightarrow> map_option t_id (activeThreadState st));
          t = (if truthyStr tId then find (\<lambda>th. t_id th = the tId) (threads st) else None)
      in (case t of Some th \<Rightarrow> statusName (t_status th) | None \<Rightarrow> ''TERMINATED''))"

definition thrIsAlive :: "'a js_host_scheme \<Rightarrow> StdCall \<Rightarrow> JVMState \<Rightarrow> bool" where
  "thrIsAlive h call st =
     (let tId = primText h (fieldOf (objOf (sc_objRef call) (heap st)) ''$threadId'');
          t = (if truthyStr tId then find (\<lambda>th. t_id th = the tId) (threads st) else None)
      in (case t of Some th \<Rightarrow> t_status th \<noteq> TERMINATED \<and> t_status th \<noteq> NEW | None \<Rightarrow> False))"

definition thrSetField :: "string \<Rightarrow> Value \<Rightarrow> StdCall \<Rightarrow> JVMState \<Rightarrow> JVMState" where
  "thrSetField n v call st =
     (case objOf (sc_objRef call) (heap st) of
        Some ob \<Rightarrow> st\<lparr> heap := heapUpd (h_id ob) (setFieldValue n v) (heap st) \<rparr>
      | None \<Rightarrow> st)"

definition thrIsInterrupted :: "'a js_host_scheme \<Rightarrow> StdCall \<Rightarrow> JVMState \<Rightarrow> bool" where
  "thrIsInterrupted h call st =
     (let tId = primText h (fieldOf (objOf (sc_objRef call) (heap st)) ''$threadId'');
          t = (if truthyStr tId then find (\<lambda>th. t_id th = the tId) (threads st)
               else activeThreadState st)
      in (case t of Some th \<Rightarrow> t_interrupted th | None \<Rightarrow> False))"

text \<open>
  The cases of the \<open>Thread\<close> family. The result says whether the call was handled, that
  is, whether the method name is one of the cases.
\<close>

definition threadCases ::
  "host \<Rightarrow> CompiledProgram \<Rightarrow> StdCall \<Rightarrow> nat \<Rightarrow> JVMState \<Rightarrow> fault + (JVMState \<times> bool)" where
  "threadCases h prog call ti st =
     (let m = sc_methodName call in
      if m = ''<init>'' then Inr (thrInit h call st, True)
      else if m = ''start'' then bindF (thrStart h prog call st) (\<lambda>s. Inr (s, True))
      else if m = ''sleep'' then Inr (thrSleep h call st, True)
      else if m = ''join'' then Inr (thrJoin h call st, True)
      else if m = ''wait'' then Inr (thrWait call st, True)
      else if m = ''notify'' then Inr (thrNotify call st, True)
      else if m = ''notifyAll'' then Inr (thrNotifyAll call st, True)
      else if m = ''getName'' then Inr (pushOn ti (strValue (thrGetName h call st)) st, True)
      else if m = ''getId'' then Inr (pushOn ti (strValue (thrGetId h call st)) st, True)
      else if m = ''getState'' then Inr (pushOn ti (strValue (thrGetState h call st)) st, True)
      else if m = ''isAlive'' then Inr (pushOn ti (boolValue (thrIsAlive h call st)) st, True)
      else if m = ''setPriority'' then
        Inr (thrSetField ''priority''
               (createPrimitiveValue TInt
                  (case argPrim (sc_args call) 0 of Some p \<Rightarrow> p | None \<Rightarrow> PNum (Fin 5)))
               call st, True)
      else if m = ''setDaemon'' then
        Inr (thrSetField ''daemon''
               (boolValue (case argPrim (sc_args call) 0 of Some p \<Rightarrow> truthy p | None \<Rightarrow> False))
               call st, True)
      else if m = ''currentThread'' then
        Inr (pushOn ti (createReferenceValue
                          (case activeThreadState st of Some t \<Rightarrow> t_objectId t | None \<Rightarrow> None))
               st, True)
      else if m = ''interrupt'' then
        Inr (updActive (\<lambda>t. t\<lparr> t_interrupted := True \<rparr>) st, True)
      else if m = ''isInterrupted'' then
        Inr (pushOn ti (boolValue (thrIsInterrupted h call st)) st, True)
      else if m = ''interrupted'' then
        Inr (pushOn ti (boolValue (case activeThreadState st of
                                     Some t \<Rightarrow> t_interrupted t | None \<Rightarrow> False))
               (updActive (\<lambda>t. t\<lparr> t_interrupted := False \<rparr>) st), True)
      else if m = ''yield'' then Inr (rotateThread (pushOn ti createNullValue st), True)
      else Inr (st, False))"

text \<open>
  \<open>className === 'Thread' || isSubclassOf(className, 'Thread') || (obj && ...)\<close>, with the
  short-circuit evaluation of the source.
\<close>

definition isThreadClass :: "CompiledProgram \<Rightarrow> StdCall \<Rightarrow> JVMState \<Rightarrow> bool option" where
  "isThreadClass prog call st =
     (if sc_className call = ''Thread'' then Some True
      else (case isSubclassOf prog (sc_className call) ''Thread'' of
              None \<Rightarrow> None
            | Some True \<Rightarrow> Some True
            | Some False \<Rightarrow>
                (case objOf (sc_objRef call) (heap st) of
                   None \<Rightarrow> Some False
                 | Some ob \<Rightarrow>
                     if h_className ob = ''Thread'' then Some True
                     else isSubclassOf prog (h_className ob) ''Thread'')))"

type_synonym StdStep = "JVMState \<times> nat \<Rightarrow> fault + ((JVMState \<times> nat) \<times> bool)"

definition threadSection :: "host \<Rightarrow> CompiledProgram \<Rightarrow> StdCall \<Rightarrow> nat \<Rightarrow> StdStep" where
  "threadSection h prog call ti sn =
     (case isThreadClass prog call (fst sn) of
        None \<Rightarrow> Inl Diverges
      | Some False \<Rightarrow> Inr (sn, False)
      | Some True \<Rightarrow>
          bindF (threadCases h prog call ti (fst sn)) (\<lambda>(s, handled). Inr ((s, snd sn), handled)))"

text \<open>
  \<open>String.hashCode\<close>: \<open>h = (Math.imul(31, h) + s.charCodeAt(i)) | 0\<close> over the characters,
  in 32-bit two's complement.
\<close>

definition stringHash :: "string \<Rightarrow> 32 word" where
  "stringHash s = foldl (\<lambda>hh c. 31 * hh + of_nat (of_char c)) 0 s"

definition strVal :: "'a js_host_scheme \<Rightarrow> Value option \<Rightarrow> string option" where
  "strVal h objRef =
     (case objRef of
        Some (Primitive t p) \<Rightarrow>
          (if t = TString then Some (if p = PNull then [] else toStr h p) else None)
      | _ \<Rightarrow> None)"

definition receiverString :: "'a js_host_scheme \<Rightarrow> StdCall \<Rightarrow> HeapObject list \<Rightarrow> string" where
  "receiverString h call hp =
     (case strVal h (sc_objRef call) of
        Some s \<Rightarrow> s
      | None \<Rightarrow>
          (case objOf (sc_objRef call) hp of
             None \<Rightarrow> []
           | Some ob \<Rightarrow>
               (case h_stringValue ob of
                  Some s \<Rightarrow> s
                | None \<Rightarrow> (case primText h (fieldOf (Some ob) ''$value'') of
                             Some s \<Rightarrow> s | None \<Rightarrow> []))))"

text \<open>One of the other families, run when its guard holds.\<close>

definition runFamily :: "host \<Rightarrow> string \<Rightarrow> bool \<Rightarrow> StdCall \<Rightarrow> nat \<Rightarrow> StdStep" where
  "runFamily h fam guard call ti sn =
     (if guard
      then (case stdlibFamily h fam call (stepNumber (fst sn))
                   (getFrame ti (fst sn), heap (fst sn), snd sn) of
              Inl e \<Rightarrow> Inl e
            | Inr ((f', hp', nid'), handled) \<Rightarrow>
                Inr ((setFrame ti f' ((fst sn)\<lparr> heap := hp' \<rparr>), nid'), handled))
      else Inr (sn, False))"

definition stringSection :: "host \<Rightarrow> StdCall \<Rightarrow> nat \<Rightarrow> StdStep" where
  "stringSection h call ti sn =
     (if sc_className call = ''String'' \<or> strVal h (sc_objRef call) \<noteq> None
      then (if sc_methodName call = ''hashCode''
            then Inr ((pushOn ti (intValue (sint (stringHash
                                     (receiverString h call (heap (fst sn)))))) (fst sn),
                       snd sn), True)
            else runFamily h ''String'' True call ti sn)
      else Inr (sn, False))"

fun tryAll :: "StdStep list \<Rightarrow> StdStep" where
  "tryAll [] sn = Inr (sn, False)"
| "tryAll (s # ss) sn =
     (case s sn of
        Inl e \<Rightarrow> Inl e
      | Inr (sn', handled) \<Rightarrow> if handled then Inr (sn', True) else tryAll ss sn')"

text \<open>\<open>hay.includes(needle)\<close>\<close>

fun strIncludes :: "string \<Rightarrow> string \<Rightarrow> bool" where
  "strIncludes [] needle = (needle = [])"
| "strIncludes (c # cs) needle =
     (take (length needle) (c # cs) = needle \<or> strIncludes cs needle)"

definition objClassIn :: "string list \<Rightarrow> Value option \<Rightarrow> JVMState \<times> nat \<Rightarrow> bool" where
  "objClassIn names objRef sn =
     (case objOf objRef (heap (fst sn)) of
        None \<Rightarrow> False
      | Some ob \<Rightarrow> h_className ob \<in> set names)"

definition EXCEPTION_TYPES :: "string list" where
  "EXCEPTION_TYPES =
     [''Exception'', ''RuntimeException'', ''NullPointerException'',
      ''IllegalArgumentException'', ''IllegalStateException'', ''IndexOutOfBoundsException'',
      ''ArrayIndexOutOfBoundsException'', ''ClassCastException'',
      ''UnsupportedOperationException'', ''StackOverflowError'', ''ArithmeticException'',
      ''NumberFormatException'', ''IOException'', ''FileNotFoundException'']"

text \<open>
  \<open>invokeStdlib\<close> tries its sections in the order of the source; a section whose guard
  fails, or whose \<open>switch\<close> has no case for the method, falls through to the next.
\<close>

definition invokeStdlib :: "host \<Rightarrow> CompiledProgram \<Rightarrow> StdCall \<Rightarrow> nat \<Rightarrow> StdStep" where
  "invokeStdlib h prog call ti =
     (let cn = sc_className call; ref = sc_objRef call; m = sc_methodName call in
      tryAll
       [\<lambda>sn. runFamily h ''Arrays.toString''
                ((cn = ''java/util/Arrays'' \<or> cn = ''Arrays'') \<and> m = ''toString''
                  \<and> length (sc_args call) = 1
                  \<and> (case sc_args call of [Reference r] \<Rightarrow> True | _ \<Rightarrow> False)) call ti sn,
        stringSection h call ti,
        \<lambda>sn. runFamily h ''Character'' (cn = ''Character'') call ti sn,
        \<lambda>sn. runFamily h ''Integer''
                (cn \<in> set [''Integer'', ''Long'', ''Double'', ''Float'', ''Number'']) call ti sn,
        \<lambda>sn. runFamily h ''Math'' (cn = ''Math'') call ti sn,
        \<lambda>sn. runFamily h ''Map''
                (case objOf ref (heap (fst sn)) of
                   None \<Rightarrow> False
                 | Some ob \<Rightarrow> h_className ob \<in> set [''HashMap'', ''LinkedHashMap'', ''TreeMap'',
                                                       ''Hashtable'', ''Map'']
                             \<or> strIncludes (h_className ob) ''Map'') call ti sn,
        \<lambda>sn. runFamily h ''MapEntry'' (objClassIn [''$MapEntry''] ref sn) call ti sn,
        \<lambda>sn. runFamily h ''Set''
                (objClassIn [''HashSet'', ''LinkedHashSet'', ''TreeSet'', ''Set''] ref sn) call ti sn,
        \<lambda>sn. runFamily h ''List''
                (objClassIn [''ArrayList'', ''LinkedList'', ''Stack'', ''Vector'', ''List'',
                             ''ArrayDeque'', ''Deque'', ''PriorityQueue''] ref sn) call ti sn,
        \<lambda>sn. runFamily h ''Iterator'' (objClassIn [''$Iterator'', ''$SetIterator''] ref sn) call ti sn,
        \<lambda>sn. runFamily h ''Collections'' (cn = ''Collections'') call ti sn,
        \<lambda>sn. runFamily h ''Arrays'' (cn = ''Arrays'') call ti sn,
        threadSection h prog call ti,
        \<lambda>sn. runFamily h ''Exception'' (cn \<in> set EXCEPTION_TYPES) call ti sn,
        \<lambda>sn. runFamily h ''StringBuilder''
                (objClassIn [''StringBuilder'', ''StringBuffer''] ref sn) call ti sn,
        \<lambda>sn. runFamily h ''Scanner'' (objClassIn [''Scanner''] ref sn) call ti sn,
        \<lambda>sn. runFamily h ''array.iterator''
                ((case objOf ref (heap (fst sn)) of
                    None \<Rightarrow> False
                  | Some ob \<Rightarrow> h_type ob = KArray) \<and> m = ''iterator'') call ti sn])"

subsection \<open>invokeMethod\<close>

text \<open>
  \<open>descriptor.match(/\((\d+)\)/)\<close>: the leftmost opening bracket that is followed by
  digits and a closing bracket; \<open>parseInt\<close> of the digits, or 0 without a match.
\<close>

definition isDigit :: "char \<Rightarrow> bool" where
  "isDigit c = (48 \<le> (of_char c :: nat) \<and> (of_char c :: nat) \<le> 57)"

definition parseDigits :: "string \<Rightarrow> nat" where
  "parseDigits ds = foldl (\<lambda>n c. 10 * n + (of_char c - 48)) 0 ds"

fun numArgsOf :: "string \<Rightarrow> nat" where
  "numArgsOf [] = 0"
| "numArgsOf (c # cs) =
     (let ds = takeWhile isDigit cs; rest = dropWhile isDigit cs
      in if c = CHR 0x28 \<and> ds \<noteq> [] \<and> rest \<noteq> [] \<and> hd rest = CHR 0x29 then parseDigits ds
         else numArgsOf cs)"

declare numArgsOf.simps [simp del]

text \<open>\<open>for (i < numArgs) args.unshift(frame.operandStack.pop() || null)\<close>\<close>

fun popArgs :: "nat \<Rightarrow> StackFrame \<Rightarrow> Value list \<Rightarrow> Value list \<times> StackFrame" where
  "popArgs 0 f args = (args, f)"
| "popArgs (Suc n) f args = popArgs n (snd (popF f)) (orNull (fst (popF f)) # args)"

definition argLocals :: "bool \<Rightarrow> CompiledMethod \<Rightarrow> Value list \<Rightarrow> LocalVariable list" where
  "argLocals isStatic methodNode args =
     map (\<lambda>i. let expectedSlot = (if isStatic then i else i + 1);
                  locVar = find (\<lambda>v. lve_index v = expectedSlot)
                             (cm_localVariableTable methodNode)
              in \<lparr> lv_name = (case locVar of
                                Some v \<Rightarrow> (if lve_name v \<noteq> [] then lve_name v
                                           else ''arg'' @ natToString i)
                              | None \<Rightarrow> ''arg'' @ natToString i),
                    lv_type = (case locVar of
                                 Some v \<Rightarrow> (if lve_type v \<noteq> [] then lve_type v else ''Object'')
                               | None \<Rightarrow> ''Object''),
                    lv_value = args ! i, lv_slot = expectedSlot \<rparr>)
         [0..<length args]"

definition receiverClass :: "Value option \<Rightarrow> HeapObject list \<Rightarrow> string" where
  "receiverClass objRef hp =
     (let cn = (case objRef of
                  Some (Reference objectId) \<Rightarrow>
                    (case heapFind objectId hp of Some ob \<Rightarrow> h_className ob | None \<Rightarrow> [])
                | _ \<Rightarrow> [])
      in if cn = []
         then (case objRef of
                 Some (Primitive t p) \<Rightarrow> (if t = TString then ''String'' else ''Object'')
               | _ \<Rightarrow> cn)
         else cn)"

definition staticTarget :: "Instruction \<Rightarrow> StackFrame \<Rightarrow> fault + string" where
  "staticTarget instr f =
     (case operands instr of
        x # OClass v # rest \<Rightarrow> Inr v
      | [x] \<Rightarrow> Inr (f_className f)
      | _ \<Rightarrow> Inl IllFormed)"

definition callUser ::
  "host \<Rightarrow> CompiledProgram \<Rightarrow> bool \<Rightarrow> string \<Rightarrow> string \<Rightarrow> Value option \<Rightarrow> Value list \<Rightarrow>
   nat \<Rightarrow> JVMState \<Rightarrow> fault + JVMState" where
  "callUser h prog isStatic targetClassName methodName objRef args ti st =
     (if targetClassName = [] then Inr (setFrame ti (incPc (getFrame ti st)) st)
      else (case lookupMethod prog targetClassName methodName of
              None \<Rightarrow> Inl Diverges
            | Some (tc, None) \<Rightarrow> Inr (setFrame ti (incPc (getFrame ti st)) st)
            | Some (None, Some methodNode) \<Rightarrow> Inl (JsThrow ''TypeError'')
            | Some (Some targetClass, Some methodNode) \<Rightarrow>
                (let frame = incPc (getFrame ti st);
                     st1 = setFrame ti frame st;
                     sig = cm_signature methodNode;
                     startIndex = (case map_of (methodOffsets prog)
                                          (cc_name targetClass @ ''.'' @ sig) of
                                     Some i \<Rightarrow> i | None \<Rightarrow> 0);
                     thisLocal = (case objRef of
                                    Some v \<Rightarrow> (if isStatic then []
                                               else [\<lparr> lv_name = ''this'', lv_type = targetClassName,
                                                        lv_value = v, lv_slot = 0 \<rparr>])
                                  | None \<Rightarrow> []);
                     newFrame = \<lparr> f_id = frameId h, f_className = cc_name targetClass,
                                  f_methodName = methodName, f_methodSignature = sig,
                                  f_localVariables = thisLocal @ argLocals isStatic methodNode args,
                                  f_operandStack = [], f_pc = int startIndex,
                                  f_lineNumber = f_lineNumber frame, f_isNative = False,
                                  f_capturedVariables = None \<rparr>;
                     target = (if activeThreadState st1 = None then ti else activeThread st1)
                 in Inr (updThread target (\<lambda>t. t\<lparr> t_stack := t_stack t @ [newFrame] \<rparr>) st1))))"

definition invokeMethod ::
  "host \<Rightarrow> CompiledProgram \<Rightarrow> Instruction \<Rightarrow> bool \<Rightarrow> nat \<Rightarrow> JVMState \<times> nat \<Rightarrow>
   fault + JVMState \<times> nat" where
  "invokeMethod h prog instr isStatic ti sn =
     bindF (bindF (operand0 instr) asMethod) (\<lambda>(methodName, descriptor).
       let st = fst sn; numArgs = numArgsOf descriptor; frame = getFrame ti st in
       if methodName = ''toString'' \<and> numArgs = 0 \<and> \<not> isStatic then
         (let (ob, f1) = popF frame;
              txt = (case ob of Some v \<Rightarrow> valueToString h v | None \<Rightarrow> ''null'')
          in Inr (setFrame ti (incPc (pushV (strValue txt) f1)) st, snd sn))
       else if methodName = ''hashCode'' \<and> numArgs = 0 \<and> \<not> isStatic then
         (let (ob, f1) = popF frame
          in Inr (setFrame ti (incPc (pushV (intValue \<lfloor>mathRandom h * 100000\<rfloor>) f1)) st,
                  snd sn))
       else
         (let (args, f1) = popArgs numArgs frame []
          in bindF (if isStatic then bindF (staticTarget instr frame) (\<lambda>cn. Inr (cn, None, f1))
                    else (let (objRef, f2) = popF f1
                          in Inr (receiverClass objRef (heap st), objRef, f2)))
               (\<lambda>(targetClassName, objRef, f3).
                  let call = \<lparr> sc_methodName = methodName, sc_args = args,
                               sc_isStatic = isStatic, sc_className = targetClassName,
                               sc_objRef = objRef \<rparr>
                  in bindF (invokeStdlib h prog call ti (setFrame ti f3 st, snd sn))
                       (\<lambda>((st2, nid2), handled).
                          if handled then Inr (setFrame ti (incPc (getFrame ti st2)) st2, nid2)
                          else bindF (callUser h prog isStatic targetClassName methodName
                                        objRef args ti st2)
                                 (\<lambda>st3. Inr (st3, nid2))))))"

subsection \<open>executeInstruction\<close>

definition executeInstruction ::
  "host \<Rightarrow> CompiledProgram \<Rightarrow> Instruction \<Rightarrow> nat \<Rightarrow> JVMState \<times> nat \<Rightarrow>
   fault + JVMState \<times> nat" where
  "executeInstruction h prog instr ti sn =
     (let opc = opcode instr; st = fst sn; nid = snd sn;
          keep = (\<lambda>r. bindF r (\<lambda>s. Inr (s, nid)))
      in
      if opc = ''NOP'' then Inr (exNOP ti st, nid)
      else if opc = ''LINE'' then keep (exLINE instr ti st)
      else if opc = ''LOAD_CONST'' then keep (exLOAD_CONST instr ti st)
      else if opc = ''PUSH_NULL'' then Inr (exPUSH_NULL ti st, nid)
      else if opc = ''LOAD_LOCAL'' then keep (exLOAD_LOCAL instr ti st)
      else if opc = ''STORE_LOCAL'' then keep (exSTORE_LOCAL instr ti st)
      else if opc = ''NEW'' then exNEW instr ti sn
      else if opc = ''NEWARRAY'' then exNEWARRAY instr ti sn
      else if opc = ''ARRAYLENGTH'' then Inr (exARRAYLENGTH ti st, nid)
      else if opc = ''ARRAYLOAD'' then keep (exARRAYLOAD ti st)
      else if opc = ''ARRAYSTORE'' then keep (exARRAYSTORE ti st)
      else if opc = ''GETFIELD'' then keep (exGETFIELD instr ti st)
      else if opc = ''PUTFIELD'' then keep (exPUTFIELD instr ti st)
      else if opc = ''GETSTATIC'' then keep (exGETSTATIC instr ti st)
      else if opc = ''PUTSTATIC'' then keep (exPUTSTATIC instr ti st)
      else if opc = ''DUP'' then Inr (exDUP ti st, nid)
      else if opc = ''DUP_X1'' then Inr (exDUP_X1 ti st, nid)
      else if opc = ''POP'' then Inr (exPOP ti st, nid)
      else if opc = ''SWAP'' then Inr (exSWAP ti st, nid)
      else if opc = ''ADD'' \<or> opc = ''SUB'' \<or> opc = ''MUL'' \<or> opc = ''DIV'' \<or> opc = ''MOD''
        then Inr (exArith h instr ti st, nid)
      else if opc = ''NEG'' then Inr (exNEG h ti st, nid)
      else if opc = ''CMP_EQ'' \<or> opc = ''CMP_NE'' \<or> opc = ''CMP_LT'' \<or> opc = ''CMP_LE''
              \<or> opc = ''CMP_GT'' \<or> opc = ''CMP_GE''
        then Inr (exCmp h instr ti st, nid)
      else if opc = ''AND'' then Inr (exAND ti st, nid)
      else if opc = ''OR'' then Inr (exOR ti st, nid)
      else if opc = ''NOT'' then Inr (exNOT ti st, nid)
      else if opc = ''GOTO'' then keep (exGOTO instr ti st)
      else if opc = ''IF_TRUE'' then keep (exIF_TRUE instr ti st)
      else if opc = ''IF_FALSE'' then keep (exIF_FALSE instr ti st)
      else if opc = ''INVOKE_VIRTUAL'' \<or> opc = ''INVOKE_INTERFACE'' \<or> opc = ''INVOKE_SPECIAL''
        then invokeMethod h prog instr False ti sn
      else if opc = ''INVOKE_STATIC'' then invokeMethod h prog instr True ti sn
      else if opc = ''RETURN'' then Inr (exRETURN ti st, nid)
      else if opc = ''RETURN_VALUE'' then Inr (exRETURN_VALUE ti st, nid)
      else if opc = ''PRINT'' then keep (exPRINT h instr ti st)
      else if opc = ''MONITORENTER'' then Inr (exMONITORENTER ti st, nid)
      else if opc = ''MONITOREXIT'' then Inr (exMONITOREXIT ti st, nid)
      else if opc = ''LAMBDA_CREATE'' then exLAMBDA_CREATE instr ti sn
      else if opc = ''LAMBDA_INVOKE'' then Inr (exNOP ti st, nid)
      else if opc = ''STREAM_SOURCE'' \<or> opc = ''STREAM_MAP'' \<or> opc = ''STREAM_FILTER''
              \<or> opc = ''STREAM_COLLECT'' \<or> opc = ''STREAM_FOREACH''
        then Inr (exNOP ti st, nid)
      else if opc = ''INSTANCEOF'' then keep (exINSTANCEOF instr ti st)
      else if opc = ''CHECKCAST'' then Inr (exNOP ti st, nid)
      else if opc = ''THROW'' then Inr (exTHROW h ti st, nid)
      else Inr (exNOP ti st, nid))"

subsection \<open>step\<close>

definition allTerminated :: "JVMState \<Rightarrow> bool" where
  "allTerminated st = list_all (\<lambda>t. t_status t = TERMINATED) (threads st)"

definition endStatus :: "JVMState \<Rightarrow> ExecutionStatus" where
  "endStatus st = (if allTerminated st then Completed else Paused)"

definition activeStack :: "JVMState \<Rightarrow> StackFrame list" where
  "activeStack st = (case activeThreadState st of Some t \<Rightarrow> t_stack t | None \<Rightarrow> [])"

text \<open>A thread without a frame, or whose \<open>pc\<close> is outside the instruction vector, ends.\<close>

definition finishThread :: "nat \<Rightarrow> JVMState \<Rightarrow> JVMState" where
  "finishThread ti st =
     (let st1 = rotateThread (terminateThread ti st);
          st2 = st1\<lparr> stack := activeStack st1, stepNumber := stepNumber st1 + 1 \<rparr>
      in st2\<lparr> status := endStatus st2 \<rparr>)"

definition fetch :: "CompiledProgram \<Rightarrow> int \<Rightarrow> Instruction option" where
  "fetch prog i =
     (if 0 \<le> i \<and> nat i < length (allInstructions prog) then Some (allInstructions prog ! nat i)
      else None)"

definition updatePc :: "JVMState \<Rightarrow> JVMState" where
  "updatePc st =
     (case activeThreadState st of
        None \<Rightarrow> st
      | Some t \<Rightarrow>
          if t_stack t = [] then st
          else (let activeFrame = last (t_stack t)
                in st\<lparr> pc := \<lparr> pc_currentInstruction = f_pc activeFrame,
                               pc_currentLine = f_lineNumber activeFrame,
                               pc_currentMethod = f_methodName activeFrame,
                               pc_currentClass = f_className activeFrame \<rparr> \<rparr>))"

text \<open>What \<open>step\<close> does after an instruction has been executed.\<close>

definition afterInstruction :: "nat \<Rightarrow> JVMState \<Rightarrow> JVMState" where
  "afterInstruction ti st =
     (let st1 = updThread ti (\<lambda>t. t\<lparr> t_stepCount := t_stepCount t + 1 \<rparr>)
                  (st\<lparr> stepNumber := stepNumber st + 1 \<rparr>);
          st2 = (if t_stack (threads st1 ! ti) = [] then terminateThread ti st1
                 else if t_status (threads st1 ! ti) = RUNNING
                 then updThread ti (\<lambda>t. t\<lparr> t_status := RUNNABLE \<rparr>) st1
                 else st1);
          st3 = rotateThread st2;
          st4 = st3\<lparr> stack := activeStack st3 \<rparr>
      in updatePc (st4\<lparr> status := endStatus st4 \<rparr>))"

text \<open>
  The part of \<open>step\<close> after the history has been saved: it works on the state and the
  object counter only. The result is the instruction and the description that \<open>step\<close>
  returns, with the new state and counter.
\<close>

definition stepState ::
  "host \<Rightarrow> CompiledProgram \<Rightarrow> JVMState \<times> nat \<Rightarrow>
   fault + ((Instruction option \<times> string) \<times> JVMState \<times> nat)" where
  "stepState h prog sn =
     (let st0 = tickThreads (fst sn);
          st1 = (if (case activeThreadState st0 of None \<Rightarrow> True | Some t \<Rightarrow> \<not> runnable t)
                 then rotateThread st0 else st0)
      in if (case activeThreadState st1 of None \<Rightarrow> True | Some t \<Rightarrow> \<not> runnable t)
         then (if allTerminated st1 \<or> length (threads st1) = 0
               then Inr ((None, ''All threads completed''), st1\<lparr> status := Completed \<rparr>, snd sn)
               else Inr ((None, ''Waiting for threads...''),
                         tickThreads (st1\<lparr> stepNumber := stepNumber st1 + 1 \<rparr>), snd sn))
         else
          (let ti = activeThread st1;
               st2 = updThread ti (\<lambda>t. t\<lparr> t_status := RUNNING \<rparr>) st1;
               thread = threads st2 ! ti;
               st3 = st2\<lparr> stack := t_stack thread \<rparr>
           in if t_stack thread = []
              then Inr ((None, ''Thread '' @ [CHR 0x27] @ t_name thread @ [CHR 0x27] @ '' terminated''),
                        finishThread ti st3, snd sn)
              else (case fetch prog (f_pc (last (t_stack thread))) of
                      None \<Rightarrow>
                        Inr ((None, ''Thread '' @ [CHR 0x27] @ t_name thread @ [CHR 0x27]
                                     @ '' finished''),
                             finishThread ti st3, snd sn)
                    | Some instruction \<Rightarrow>
                        (let st4 = st3\<lparr> status := Running \<rparr>
                         in bindF (executeInstruction h prog instruction ti (st4, snd sn))
                              (\<lambda>(st5, nid5).
                                 Inr ((Some instruction, describe h instruction st4),
                                      afterInstruction ti st5, nid5))))))"

definition step :: "host \<Rightarrow> JVMSimulator \<Rightarrow> fault + (ExecutionResult \<times> JVMSimulator)" where
  "step h sim =
     (if status (state sim) = Completed \<or> status (state sim) = Error
      then Inr (\<lparr> r_state = cloneState sim, r_instruction = None,
                  r_description = ''Execution finished'' \<rparr>, sim)
      else (let sim1 = saveHistory sim
            in bindF (stepState h (program sim1) (state sim1, nextObjectId sim1))
                 (\<lambda>((ins, desc), st', nid').
                    let sim2 = sim1\<lparr> state := st', nextObjectId := nid' \<rparr>
                    in Inr (\<lparr> r_state = cloneState sim2, r_instruction = ins,
                              r_description = desc \<rparr>, sim2))))"

subsection \<open>Construction\<close>

text \<open>
  \<open>signature.match(/\)(.+)$/)\<close>: the text after the leftmost closing bracket that is
  followed, up to the end, by at least one character and no line break.
\<close>

fun extractReturnType :: "string \<Rightarrow> string" where
  "extractReturnType [] = ''void''"
| "extractReturnType (c # cs) =
     (if c = CHR 0x29 \<and> cs \<noteq> [] \<and> list_all (\<lambda>x. x \<noteq> CHR 0x0A \<and> x \<noteq> CHR 0x0D) cs then cs
      else extractReturnType cs)"

definition offsetOf :: "CompiledProgram \<Rightarrow> string \<Rightarrow> nat" where
  "offsetOf prog k = (case map_of (methodOffsets prog) k of Some i \<Rightarrow> i | None \<Rightarrow> 0)"

definition classInfoOf :: "CompiledProgram \<Rightarrow> CompiledClass \<Rightarrow> ClassInfo" where
  "classInfoOf prog cls =
     \<lparr> ci_name = cc_name cls, ci_superClass = Some (cc_superClass cls),
       ci_interfaces = cc_interfaces cls,
       ci_fields = map (\<lambda>fd. \<lparr> fi_name = cf_name fd, fi_type = cf_type fd,
                               fi_accessModifiers = [], fi_isStatic = cf_isStatic fd,
                               fi_initialValue = map_option operandToValue (cf_initialValue fd) \<rparr>)
                       (cc_fields cls),
       ci_methods = map (\<lambda>m. \<lparr> mi_name = cm_methodName m,
                               mi_returnType = extractReturnType (cm_signature m),
                               mi_parameters = [], mi_accessModifiers = [],
                               mi_isStatic = (cm_methodName m = ''main''
                                              \<or> cm_methodName m = ''<clinit>''),
                               mi_isAbstract = False, mi_isDefault = False, mi_isNative = False,
                               mi_bytecodeStartIndex =
                                 offsetOf prog (cc_name cls @ ''.'' @ cm_signature m),
                               mi_bytecodeEndIndex =
                                 offsetOf prog (cc_name cls @ ''.'' @ cm_signature m)
                                   + length (cm_instructions m),
                               mi_lineNumberTable = EmptyMap \<rparr>)
                        (cc_methods cls),
       ci_isInterface = cc_isInterface cls, ci_isAbstract = False, ci_accessModifiers = [],
       ci_sourceFile = None, ci_loadedAtStep = 0 \<rparr>"

definition staticsOf :: "CompiledClass \<Rightarrow> (string \<times> Value) list" where
  "staticsOf cls =
     foldl (\<lambda>d fd. assocSet (cf_name fd)
                      (case cf_initialValue fd of
                         Some x \<Rightarrow> operandToValue x
                       | None \<Rightarrow> getDefaultValue (cf_type fd)) d)
           [] (filter cf_isStatic (cc_fields cls))"

definition loadClass :: "CompiledProgram \<Rightarrow> MethodArea \<Rightarrow> CompiledClass \<Rightarrow> MethodArea" where
  "loadClass prog ma cls =
     ma\<lparr> ma_loadedClasses := assocSet (cc_name cls) (classInfoOf prog cls) (ma_loadedClasses ma),
         ma_staticFields := assocSet (cc_name cls) (staticsOf cls) (ma_staticFields ma) \<rparr>"

definition initialize :: "host \<Rightarrow> CompiledProgram \<Rightarrow> JVMState \<times> nat \<Rightarrow> JVMState \<times> nat" where
  "initialize h prog sn =
     (let st1 = (fst sn)\<lparr> methodArea := foldl (loadClass prog) (methodArea (fst sn))
                                           (classes prog) \<rparr>
      in if mainClass prog = [] then (st1, snd sn)
         else
          (let startIndex = offsetOf prog (mainClass prog @ ''.main(String[])void'');
               (argsArrayId, st2, nid2) = allocateArray ''String'' [] (st1, snd sn);
               mainFrame = \<lparr> f_id = frameId h, f_className = mainClass prog,
                             f_methodName = ''main'', f_methodSignature = ''main(String[])void'',
                             f_localVariables =
                               [\<lparr> lv_name = ''args'', lv_type = ''String[]'',
                                  lv_value = createReferenceValue (Some argsArrayId),
                                  lv_slot = 0 \<rparr>],
                             f_operandStack = [], f_pc = int startIndex, f_lineNumber = 1,
                             f_isNative = False, f_capturedVariables = None \<rparr>;
               mainThread = \<lparr> t_id = ''thread_main'', t_name = ''main'', t_stack = [mainFrame],
                              t_status = RUNNABLE, t_sleepUntilStep = None,
                              t_waitingOnMonitor = None, t_holdingMonitors = [],
                              t_objectId = None, t_priority = 5, t_isDaemon = False,
                              t_stepCount = 0, t_interrupted = False \<rparr>
           in (st2\<lparr> threads := [mainThread], activeThread := 0, stack := [mainFrame],
                    pc := \<lparr> pc_currentInstruction = int startIndex, pc_currentLine = 1,
                            pc_currentMethod = ''main'', pc_currentClass = mainClass prog \<rparr>,
                    status := Paused \<rparr>, nid2)))"

text \<open>The constructor; \<open>reset\<close> builds the same simulator again.\<close>

definition newSimulator :: "host \<Rightarrow> CompiledProgram \<Rightarrow> JVMSimulator" where
  "newSimulator h prog =
     (let (st, nid) = initialize h prog (createInitialJVMState, 1)
      in \<lparr> program = prog, state = st, history = [], maxHistory = 500, nextObjectId = nid \<rparr>)"

definition reset :: "host \<Rightarrow> JVMSimulator \<Rightarrow> JVMSimulator" where
  "reset h sim = (newSimulator h (program sim))\<lparr> maxHistory := maxHistory sim \<rparr>"

section \<open>The compiler's choice of the main class (BytecodeCompiler.compile)\<close>

datatype TypeNode = TypeNode string bool nat "TypeNode list"

fun joinWith :: "string \<Rightarrow> string list \<Rightarrow> string" where
  "joinWith sep [] = []"
| "joinWith sep [x] = x"
| "joinWith sep (x # y # ys) = x @ sep @ joinWith sep (y # ys)"

fun typeToString :: "TypeNode \<Rightarrow> string" where
  "typeToString (TypeNode n isArray arrayDimensions typeArguments) =
     (n @ (if length typeArguments > 0
           then ''<'' @ joinWith '', '' (map typeToString typeArguments) @ ''>''
           else [])
        @ concat (replicate arrayDimensions ''[]''))"

definition buildMethodSignature :: "string \<Rightarrow> TypeNode list \<Rightarrow> TypeNode \<Rightarrow> string" where
  "buildMethodSignature n paramTypes returnType =
     n @ ''('' @ joinWith '','' (map typeToString paramTypes) @ '')'' @ typeToString returnType"

definition isMainMethod :: "CompiledMethod \<Rightarrow> bool" where
  "isMainMethod m = (cm_methodName m = ''main'' \<and> strIncludes (cm_signature m) ''String[]'')"

text \<open>
  \<open>for (cls of classes) for (method of cls.methods) if (...) { mainClass = cls.name; break }\<close>:
  the \<open>break\<close> leaves the loop over the methods, the loop over the classes goes on.
\<close>

definition findMainClass :: "CompiledClass list \<Rightarrow> string" where
  "findMainClass cs =
     foldl (\<lambda>mc cls. if list_ex isMainMethod (cc_methods cls) then cc_name cls else mc) [] cs"

text \<open>
  \<open>compile\<close> after its first pass, which appends one compiled class per declaration, in
  the order of the declarations; the three results of that pass are the arguments.
\<close>

definition compile ::
  "CompiledClass list \<Rightarrow> Instruction list \<Rightarrow> (string \<times> nat) list \<Rightarrow> CompiledProgram" where
  "compile cs instrs offsets =
     \<lparr> classes = cs, mainClass = findMainClass cs, mainMethod = ''main'',
       allInstructions = instrs, methodOffsets = offsets \<rparr>"

section \<open>The monitor table seen from the threads\<close>





text \<open>
  Two threads can carry the same identifier (the identifier is chosen when the
  \<open>Thread\<close> object is constructed, from the number of threads started so far); only the
  first of them is ever found by \<open>threads.find\<close>, so the later ones hold nothing.
\<close>

fun lateEmpty :: "(string \<times> string list) list \<Rightarrow> bool" where
  "lateEmpty [] = True"
| "lateEmpty (p # ps) = ((\<forall>q \<in> set ps. fst q = fst p \<longrightarrow> snd q = []) \<and> lateEmpty ps)"










section \<open>Concrete inputs\<close>

definition emptyProgram :: CompiledProgram where
  "emptyProgram = \<lparr> classes = [], mainClass = [], mainMethod = ''main'',
                      allInstructions = [], methodOffsets = [] \<rparr>"

text \<open>A simulator right after construction from a program without a main class.\<close>

definition freshSim :: JVMSimulator where
  "freshSim = \<lparr> program = emptyProgram, state = createInitialJVMState, history = [],
                  maxHistory = 500, nextObjectId = 1 \<rparr>"

text \<open>
  A host whose other library families handle nothing, with \<open>Math.random()\<close> returning
  one half.
\<close>

definition host0 :: host where
  "host0 = \<lparr> numToString = (\<lambda>n. ''n''), strToNumber = (\<lambda>s. NaN), mathRandom = 1 / 2,
             frameId = ''frame_0'', describe = (\<lambda>i s. []),
             stdlibFamily = (\<lambda>fam call sn s. Inr (s, False)) \<rparr>"

definition mkInstr :: "OpCode \<Rightarrow> InstructionOperand list \<Rightarrow> Instruction" where
  "mkInstr opc ops = \<lparr> opcode = opc, operands = ops, sourceLine = 0, sourceColumn = None,
                       comment = None \<rparr>"

definition frameWith :: "Value list \<Rightarrow> StackFrame" where
  "frameWith stk = \<lparr> f_id = ''frame_0'', f_className = ''Demo'', f_methodName = ''main'',
                     f_methodSignature = ''main(String[])void'', f_localVariables = [],
                     f_operandStack = stk, f_pc = 0, f_lineNumber = 1, f_isNative = False,
                     f_capturedVariables = None \<rparr>"

definition threadWith :: "string \<Rightarrow> ThreadStatus \<Rightarrow> Value list \<Rightarrow> ThreadState" where
  "threadWith tid s stk =
     \<lparr> t_id = tid, t_name = tid, t_stack = [frameWith stk], t_status = s,
       t_sleepUntilStep = None, t_waitingOnMonitor = None, t_holdingMonitors = [],
       t_objectId = None, t_priority = 5, t_isDaemon = False, t_stepCount = 0,
       t_interrupted = False \<rparr>"

text \<open>A state in the middle of \<open>step\<close>: thread 0 is running its top frame.\<close>

definition stateWith :: "ThreadState list \<Rightarrow> JVMState" where
  "stateWith ts = createInitialJVMState\<lparr> threads := ts, status := Running \<rparr>"

definition runningWith :: "Value list \<Rightarrow> JVMState" where
  "runningWith stk = stateWith [threadWith ''thread_main'' RUNNING stk]"

text \<open>What an execution left behind, for statements about concrete runs.\<close>

definition stateAfter :: "fault + JVMState \<times> nat \<Rightarrow> JVMState option" where
  "stateAfter r = (case r of Inr sn \<Rightarrow> Some (fst sn) | Inl e \<Rightarrow> None)"

definition stackAfter :: "nat \<Rightarrow> fault + JVMState \<times> nat \<Rightarrow> Value list option" where
  "stackAfter ti r = map_option (\<lambda>s. f_operandStack (getFrame ti s)) (stateAfter r)"


definition interruptedAfter :: "fault + JVMState \<times> nat \<Rightarrow> bool list option" where
  "interruptedAfter r = map_option (\<lambda>s. map t_interrupted (threads s)) (stateAfter r)"

definition returned :: "fault + 'a \<Rightarrow> bool" where
  "returned r = (case r of Inr x \<Rightarrow> True | Inl e \<Rightarrow> False)"

text \<open>The program \<open>class Hello { main: System.out.println("Hi") }\<close> as compiled.\<close>

definition helloMain :: CompiledMethod where
  "helloMain = \<lparr> cm_className = ''Hello'', cm_methodName = ''main'',
                  cm_signature = ''main(String[])void'',
                  cm_instructions = [mkInstr ''LOAD_CONST'' [OString ''Hi''],
                                     mkInstr ''PRINT'' [OBoolean True],
                                     mkInstr ''RETURN'' []],
                  cm_localVariableTable = [], cm_maxStack = 16, cm_maxLocals = 1 \<rparr>"

definition helloProgram :: CompiledProgram where
  "helloProgram =
     compile [\<lparr> cc_name = ''Hello'', cc_superClass = ''Object'', cc_interfaces = [],
                cc_fields = [], cc_methods = [helloMain], cc_isInterface = False,
                cc_sourceFile = ''source.java'' \<rparr>]
             (cm_instructions helloMain) [(''Hello.main(String[])void'', 0)]"

definition helloSim :: JVMSimulator where
  "helloSim = newSimulator host0 helloProgram"

text \<open>
  Two classes that both declare \<open>public static void main(String[] args)\<close>, in the
  order A, B.
\<close>

definition mainOf :: "string \<Rightarrow> CompiledMethod" where
  "mainOf cn = \<lparr> cm_className = cn, cm_methodName = ''main'',
                  cm_signature = buildMethodSignature ''main'' [TypeNode ''String'' True 1 []]
                                   (TypeNode ''void'' False 0 []),
                  cm_instructions = [mkInstr ''RETURN'' []],
                  cm_localVariableTable = [], cm_maxStack = 16, cm_maxLocals = 1 \<rparr>"

definition classWithMain :: "string \<Rightarrow> CompiledClass" where
  "classWithMain cn = \<lparr> cc_name = cn, cc_superClass = ''Object'', cc_interfaces = [],
                         cc_fields = [], cc_methods = [mainOf cn], cc_isInterface = False,
                         cc_sourceFile = ''source.java'' \<rparr>"

text \<open>
  The main thread is about to call a method on the \<open>Thread\<close> object \<open>obj_2\<close>, whose
  thread \<open>thread_1\<close> has been started.
\<close>

definition workerObject :: HeapObject where
  "workerObject = addFields (threadFields ''thread_1'' ''Thread-1'')
                    (newHeapObject ''obj_2'' KObject ''Thread'' [] 0)"

definition twoThreads :: JVMState where
  "twoThreads =
     (stateWith [threadWith ''thread_main'' RUNNING [Reference (Some ''obj_2'')],
                 (threadWith ''thread_1'' RUNNABLE [])\<lparr> t_objectId := Some ''obj_2'' \<rparr>])
       \<lparr> heap := [workerObject] \<rparr>"





definition stateOf :: "fault + JVMSimulator \<Rightarrow> JVMState option" where
  "stateOf r = (case r of Inr sim \<Rightarrow> Some (state sim) | Inl e \<Rightarrow> None)"

section \<open>Properties\<close>

subsection \<open>Frames and the operand stack\<close>






subsection \<open>A step and a step back\<close>

text \<open>
  A snapshot is the state after \<open>JSON.parse(JSON.stringify(state))\<close>. Taking the snapshot
  of a snapshot changes nothing.
\<close>

lemma clonePayload_idem: "clonePayload (clonePayload p) = clonePayload p"
  by (cases p) auto

lemma cloneValue_idem: "cloneValue (cloneValue v) = cloneValue v"
  by (induction v) (auto simp: clonePayload_idem)

lemma cloneLocal_idem: "cloneLocal (cloneLocal v) = cloneLocal v"
  by (simp add: cloneLocal_def cloneValue_idem)

lemma cloneFrame_idem: "cloneFrame (cloneFrame f) = cloneFrame f"
  by (cases "f_capturedVariables f")
     (simp_all add: cloneFrame_def cloneLocal_idem cloneValue_idem comp_def)

lemma cloneHeapObject_idem: "cloneHeapObject (cloneHeapObject ob) = cloneHeapObject ob"
  by (cases "h_arrayElements ob")
     (simp_all add: cloneHeapObject_def cloneHeapField_def cloneValue_idem comp_def)

lemma cloneClassInfo_idem: "cloneClassInfo (cloneClassInfo c) = cloneClassInfo c"
  by (simp add: cloneClassInfo_def cloneFieldInfo_def cloneMethodInfo_def comp_def
      option.map_comp cloneValue_idem)

lemma cloneMethodArea_idem: "cloneMethodArea (cloneMethodArea m) = cloneMethodArea m"
  by (simp add: cloneMethodArea_def cloneConstant_def comp_def clonePayload_idem
      cloneValue_idem cloneClassInfo_idem prod.map_comp id_def)

lemma cloneSleep_idem: "cloneSleep (cloneSleep x) = cloneSleep x"
  by (cases x) auto

lemma cloneThread_idem: "cloneThread (cloneThread t) = cloneThread t"
  by (simp add: cloneThread_def comp_def cloneFrame_idem option.map_comp cloneSleep_idem)

lemma cloneJVMState_idem: "cloneJVMState (cloneJVMState s) = cloneJVMState s"
  by (simp add: cloneJVMState_def comp_def cloneFrame_idem cloneHeapObject_idem
      cloneMethodArea_idem cloneThread_idem)

text \<open>A step that gets past its first test pushes the snapshot of the state it starts from.\<close>

lemma step_history:
  assumes "status (state sim) \<noteq> Completed" and "status (state sim) \<noteq> Error"
    and "step h sim = Inr (r, sim')"
  shows "history sim' =
           (if length (history sim) \<ge> maxHistory sim then tl (history sim) else history sim)
             @ [getState sim]"
  using assms
  by (auto simp: step_def saveHistory_def bindF_def Let_def getState_def cloneState_def
      split: sum.splits prod.splits)

text \<open>
  C1. Let the status be neither \<open>completed\<close> nor \<open>error\<close>, and let \<open>step\<close> return. Then
  \<open>stepBack\<close>, called next, returns the snapshot that \<open>getState\<close> gave just before the
  step, makes that snapshot the current state, and removes from the history exactly the
  entry that the step pushed (the history is the one before the step, less its oldest
  entry when it was full). Equality is equality of the whole \<open>JVMState\<close> value.
\<close>

theorem step_then_stepBack:
  assumes "status (state sim) \<noteq> Completed" and "status (state sim) \<noteq> Error"
    and "step h sim = Inr (r, sim')"
  shows "r_state (fst (stepBack sim')) = getState sim
         \<and> state (snd (stepBack sim')) = getState sim
         \<and> history (snd (stepBack sim')) =
             (if length (history sim) \<ge> maxHistory sim then tl (history sim) else history sim)"
  using step_history [OF assms]
  by (simp add: stepBack_def Let_def cloneState_def getState_def cloneJVMState_idem)

theorem step_then_stepBack_witness:
  "status (state helloSim) \<noteq> Completed \<and> status (state helloSim) \<noteq> Error
   \<and> (\<exists>r sim'. step host0 helloSim = Inr (r, sim')
         \<and> r_state (fst (stepBack sim')) = getState helloSim
         \<and> state (snd (stepBack sim')) = getState helloSim
         \<and> history (snd (stepBack sim')) = [])"
proof -
  have a: "status (state helloSim) \<noteq> Completed" by code_simp
  have b: "status (state helloSim) \<noteq> Error" by code_simp
  have c: "history helloSim = []" by code_simp
  have d: "maxHistory helloSim = 500" by code_simp
  have "returned (step host0 helloSim)" by code_simp
  then obtain r sim' where s: "step host0 helloSim = Inr (r, sim')"
    by (auto simp: returned_def split: sum.splits)
  from step_then_stepBack [OF a b s] show ?thesis
    using a b c d s by simp
qed

subsection \<open>The hashCode call\<close>

text \<open>
  C2. A call \<open>s.hashCode()\<close> is an \<open>INVOKE_VIRTUAL hashCode (0)\<close> with the string on the
  operand stack. \<open>invokeMethod\<close> answers every such call itself, before it looks at the
  receiver: it pops the receiver and pushes \<open>Math.floor(Math.random() * 100000)\<close>. On the
  string \<open>a\<close> the call pushes 50000 when \<open>Math.random()\<close> returns 1/2 and 25000 when it
  returns 1/4, whereas the fold \<open>h = 31 * h + c\<close> in 32-bit arithmetic, which the String
  section of \<open>invokeStdlib\<close> computes, gives 97. So the call is neither deterministic nor
  the fold.
\<close>

theorem hashCode_call_pushes_random:
  "stackAfter 0 (executeInstruction host0 emptyProgram
                   (mkInstr ''INVOKE_VIRTUAL'' [OMethod ''hashCode'' ''(0)'']) 0
                   (runningWith [strValue ''a''], 1)) = Some [intValue 50000]
   \<and> stackAfter 0 (executeInstruction (host0\<lparr> mathRandom := 1 / 4 \<rparr>) emptyProgram
                   (mkInstr ''INVOKE_VIRTUAL'' [OMethod ''hashCode'' ''(0)'']) 0
                   (runningWith [strValue ''a''], 1)) = Some [intValue 25000]
   \<and> sint (stringHash ''a'') = 97"
  by code_simp

subsection \<open>The monitor table and the lists of the threads\<close>







lemma lateEmpty_first:
  "lateEmpty ths \<Longrightarrow> p \<in> set ths \<Longrightarrow> snd p \<noteq> [] \<Longrightarrow> map_of ths (fst p) = Some (snd p)"
  by (induction ths) (auto split: if_splits)

















































































































subsection \<open>MONITORENTER on a monitor held by another thread\<close>



subsection \<open>DIV and MOD\<close>




subsection \<open>The main class\<close>

text \<open>
  C6. \<open>compile\<close> looks for the main class in a loop over all classes; the \<open>break\<close> after
  a match leaves only the inner loop over the methods, so every later class with a
  \<open>main(String[])\<close> method overwrites the choice. For the classes A and B, both with
  \<open>public static void main(String[] args)\<close> and declared in this order, the compiled
  program has main class B, not A.
\<close>

theorem compile_two_mains_picks_last:
  "mainClass (compile [classWithMain ''A'', classWithMain ''B''] [] []) = ''B''
   \<and> list_ex isMainMethod (cc_methods (classWithMain ''A''))
   \<and> cm_signature (mainOf ''A'') = ''main(String[])void''"
  by code_simp

subsection \<open>Thread.interrupt\<close>

text \<open>
  C7. The \<open>interrupt\<close> case of \<open>invokeStdlib\<close> sets the flag of \<open>activeThreadState()\<close>,
  the thread that executes the call, and never looks at the receiver. In the state
  \<open>twoThreads\<close> the main thread (index 0, the active one) calls \<open>interrupt()\<close> on the
  \<open>Thread\<close> object of \<open>thread_1\<close>: afterwards the flag of the main thread is set and the
  flag of \<open>thread_1\<close>, the receiver, is still clear.
\<close>

theorem interrupt_sets_caller_flag:
  "interruptedAfter (executeInstruction host0 emptyProgram
                       (mkInstr ''INVOKE_VIRTUAL'' [OMethod ''interrupt'' ''(0)'']) 0
                       (twoThreads, 3)) = Some [True, False]
   \<and> map t_id (threads twoThreads) = [''thread_main'', ''thread_1'']
   \<and> activeThread twoThreads = 0
   \<and> thrGetId host0 \<lparr> sc_methodName = ''interrupt'', sc_args = [], sc_isStatic = False,
                        sc_className = ''Thread'', sc_objRef = Some (Reference (Some ''obj_2'')) \<rparr>
        twoThreads = ''thread_1''"
  by code_simp

subsection \<open>Thread.sleep and the tick of the clock\<close>


lemma numArgsOf_0: "numArgsOf ''(0)'' = 0"
  by (simp add: numArgsOf.simps isDigit_def parseDigits_def)


lemma mathMax_int: "mathMax (Fin 1) (Fin (of_int q)) = Fin (of_int (max 1 q))"
  by (simp add: mathMax_def max_def)

lemma sleep_steps:
  "mathMax (Fin 1) (mathRound (jsDiv (Fin ms) (Fin 50))) = Fin (of_int (max 1 \<lfloor>ms / 50 + 1 / 2\<rfloor>))"
  using mathMax_int [of "\<lfloor>ms / 50 + 1 / 2\<rfloor>"] by simp



lemma tickOne_stepNumber: "stepNumber (tickOne i st) = stepNumber st"
  by (simp add: tickOne_def Let_def)




lemma fold_tickOne_stepNumber: "stepNumber (fold tickOne js st) = stepNumber st"
  by (induction js arbitrary: st) (auto simp: tickOne_stepNumber)





subsection \<open>PRINT\<close>






subsection \<open>Stepping back on an empty history\<close>

text \<open>
  C10. When the history is empty (\<open>canStepBack\<close> is false), \<open>stepBack\<close> leaves the
  simulator as it is (state, history, program and object counter, hence also the execution
  status) and returns the snapshot of the current state, no instruction, and the
  description \<open>No previous state\<close>. The snapshot is what \<open>getState\<close> returns. \<open>stepBack\<close> has
  no failing branch.
\<close>

theorem stepBack_empty_history:
  assumes "\<not> canStepBack sim"
  shows "stepBack sim =
           (\<lparr> r_state = getState sim, r_instruction = None,
              r_description = ''No previous state'' \<rparr>, sim)"
  using assms by (simp add: stepBack_def canStepBack_def getState_def)

theorem stepBack_empty_history_witness:
  "\<not> canStepBack freshSim \<and>
   stepBack freshSim =
     (\<lparr> r_state = getState freshSim, r_instruction = None,
        r_description = ''No previous state'' \<rparr>, freshSim) \<and>
   status (state (snd (stepBack freshSim))) = Idle"
proof -
  have h: "\<not> canStepBack freshSim"
    by (simp add: canStepBack_def freshSim_def)
  from stepBack_empty_history [OF h] show ?thesis
    using h by (simp add: freshSim_def createInitialJVMState_def)
qed

end
